theory Spec2Isabelle
  imports Main Complex_Main "HOL-Library.Word"
begin

unbundle bit_operations_syntax

section \<open>Constants and return codes of ceph.c\<close>

text \<open>
  \<^verbatim>\<open>#define MAX_RRD_DS_NAME_LEN 20\<close>.  The long-name budget \<^verbatim>\<open>DATA_MAX_NAME_LEN\<close>
  and the key-stack capacity \<^verbatim>\<open>YAJL_MAX_DEPTH\<close> are declared in headers outside
  ceph.c; every function that uses one of them takes it as its first parameter
  (written \<open>N\<close> and \<open>D\<close>).
\<close>

definition MAX_RRD_DS_NAME_LEN :: nat where
  "MAX_RRD_DS_NAME_LEN = 20"

text \<open>
  The negative errno values that ceph.c returns, as a datatype; \<open>Errno n\<close> is any
  other failure code \<open>-n\<close> handed back by a system call.  \<open>errno_of\<close> gives the
  positive Linux numbers, needed where the code compares a \<^verbatim>\<open>double\<close> with
  \<^verbatim>\<open>-ENOMEM\<close>.
\<close>

datatype error = ENOMEM | ENAMETOOLONG | ENOTSUP | EDOM | EIO | EINVAL | ETIMEDOUT
  | Errno nat

fun errno_of :: "error \<Rightarrow> int" where
  "errno_of ENOMEM = 12"
| "errno_of ENAMETOOLONG = 36"
| "errno_of ENOTSUP = 95"
| "errno_of EDOM = 33"
| "errno_of EIO = 5"
| "errno_of EINVAL = 22"
| "errno_of ETIMEDOUT = 110"
| "errno_of (Errno n) = int n"

section \<open>Values of type double\<close>

text \<open>
  A \<^verbatim>\<open>double\<close> is modelled as a real number, an infinity or not-a-number.  The
  arithmetic follows IEEE 754 on the special values (a zero divisor gives an
  infinity or NaN, NaN compares unequal to everything); finite results are the
  exact real results, so rounding and the sign of zero are not represented.
\<close>

datatype double = Fin real | PInf | NInf | NaN

fun dneg :: "double \<Rightarrow> double" where
  "dneg (Fin a) = Fin (- a)"
| "dneg PInf = NInf"
| "dneg NInf = PInf"
| "dneg NaN = NaN"

fun dadd :: "double \<Rightarrow> double \<Rightarrow> double" where
  "dadd (Fin a) (Fin b) = Fin (a + b)"
| "dadd NaN _ = NaN"
| "dadd _ NaN = NaN"
| "dadd PInf NInf = NaN"
| "dadd NInf PInf = NaN"
| "dadd PInf _ = PInf"
| "dadd NInf _ = NInf"
| "dadd _ PInf = PInf"
| "dadd _ NInf = NInf"

definition dsub :: "double \<Rightarrow> double \<Rightarrow> double" where
  "dsub x y = dadd x (dneg y)"

fun ddiv :: "double \<Rightarrow> double \<Rightarrow> double" where
  "ddiv (Fin a) (Fin b) =
     (if b = 0 then (if a = 0 then NaN else if 0 < a then PInf else NInf)
      else Fin (a / b))"
| "ddiv NaN _ = NaN"
| "ddiv _ NaN = NaN"
| "ddiv (Fin a) _ = Fin 0"
| "ddiv PInf (Fin b) = (if 0 \<le> b then PInf else NInf)"
| "ddiv NInf (Fin b) = (if 0 \<le> b then NInf else PInf)"
| "ddiv _ _ = NaN"

text \<open>The C comparison \<^verbatim>\<open>==\<close> on doubles.\<close>

fun deq :: "double \<Rightarrow> double \<Rightarrow> bool" where
  "deq (Fin a) (Fin b) = (a = b)"
| "deq PInf PInf = True"
| "deq NInf NInf = True"
| "deq _ _ = False"

text \<open>Conversions \<^verbatim>\<open>(double) uint64_t\<close> and \<^verbatim>\<open>(double) int\<close>.\<close>

definition double_of_u64 :: "64 word \<Rightarrow> double" where
  "double_of_u64 w = Fin (real (unat w))"

definition double_of_int :: "int \<Rightarrow> double" where
  "double_of_int i = Fin (real_of_int i)"

section \<open>Rate engine: the history of latency pairs\<close>

text \<open>
  \<^verbatim>\<open>struct last_data\<close>.  The global array \<^verbatim>\<open>last_poll_data\<close> with its fill count
  \<^verbatim>\<open>last_idx\<close> is a list, passed in and returned.
\<close>

record last_data =
  dset_name :: string
  ds_name :: string
  last_sum :: double
  last_count :: "64 word"

text \<open>
  collectd's \<^verbatim>\<open>sstrncpy (dest, src, n)\<close>: \<^verbatim>\<open>strncpy\<close> followed by
  \<^verbatim>\<open>dest[n - 1] = 0\<close>, so at most \<open>n - 1\<close> characters are kept.
\<close>

definition sstrncpy :: "string \<Rightarrow> nat \<Rightarrow> string" where
  "sstrncpy src n = take (n - 1) src"

text \<open>
  Memory allocation is an input: \<open>alloc_ok\<close> tells whether the \<^verbatim>\<open>malloc\<close> and
  \<^verbatim>\<open>realloc\<close> calls made during the call succeed.  A failing call returns
  \<^verbatim>\<open>-ENOMEM\<close> and leaves the list as it was.
\<close>

definition add_last ::
  "nat \<Rightarrow> bool \<Rightarrow> last_data list \<Rightarrow> string \<Rightarrow> string \<Rightarrow> double \<Rightarrow> 64 word
    \<Rightarrow> error + last_data list" where
  "add_last N alloc_ok lpd dset_n ds_n cur_sum cur_count =
     (if \<not> alloc_ok then Inl ENOMEM
      else Inr (lpd @ [\<lparr>dset_name = sstrncpy dset_n N,
                        ds_name = sstrncpy ds_n MAX_RRD_DS_NAME_LEN,
                        last_sum = cur_sum, last_count = cur_count\<rparr>]))"

text \<open>The search loop of \<^verbatim>\<open>update_last\<close>: the first matching entry is overwritten.\<close>

fun update_match ::
  "last_data list \<Rightarrow> string \<Rightarrow> string \<Rightarrow> double \<Rightarrow> 64 word \<Rightarrow> last_data list option" where
  "update_match [] dset_n ds_n cur_sum cur_count = None"
| "update_match (e # es) dset_n ds_n cur_sum cur_count =
     (if dset_name e = dset_n \<and> ds_name e = ds_n
      then Some (e\<lparr>last_sum := cur_sum, last_count := cur_count\<rparr> # es)
      else map_option ((#) e) (update_match es dset_n ds_n cur_sum cur_count))"

definition update_last ::
  "nat \<Rightarrow> bool \<Rightarrow> last_data list \<Rightarrow> string \<Rightarrow> string \<Rightarrow> double \<Rightarrow> 64 word
    \<Rightarrow> error + last_data list" where
  "update_last N alloc_ok lpd dset_n ds_n cur_sum cur_count =
     (case update_match lpd dset_n ds_n cur_sum cur_count of
        Some lpd' \<Rightarrow> Inr lpd'
      | None \<Rightarrow>
          if \<not> alloc_ok then Inl ENOMEM
          else add_last N alloc_ok lpd dset_n ds_n cur_sum cur_count)"

text \<open>The search loop of \<^verbatim>\<open>get_last_avg\<close>: the first matching entry, if any.\<close>

fun find_last :: "last_data list \<Rightarrow> string \<Rightarrow> string \<Rightarrow> last_data option" where
  "find_last [] dset_n ds_n = None"
| "find_last (e # es) dset_n ds_n =
     (if dset_name e = dset_n \<and> ds_name e = ds_n then Some e
      else find_last es dset_n ds_n)"

text \<open>The initial value \<^verbatim>\<open>-1.1\<close> of \<^verbatim>\<open>result\<close>, which doubles as "nothing computed".\<close>

definition no_result :: double where
  "no_result = Fin (- (11 / 10))"

definition get_last_avg ::
  "nat \<Rightarrow> bool \<Rightarrow> last_data list \<Rightarrow> string \<Rightarrow> string \<Rightarrow> double \<Rightarrow> 64 word
    \<Rightarrow> double \<times> last_data list" where
  "get_last_avg N alloc_ok lpd dset_n ds_n cur_sum cur_count =
     (let result =
            (case find_last lpd dset_n ds_n of
               None \<Rightarrow> no_result
             | Some e \<Rightarrow>
                 if cur_count < last_count e then no_result
                 else
                   (let sum_delt = dsub cur_sum (last_sum e);
                        count_delt = cur_count - last_count e
                    in ddiv sum_delt (double_of_u64 count_delt)));
          result = (if deq result no_result then NaN else result)
      in case update_last N alloc_ok lpd dset_n ds_n cur_sum cur_count of
           Inl e \<Rightarrow>
             if e = ENOMEM then (double_of_int (- errno_of ENOMEM), lpd)
             else (result, lpd)
         | Inr lpd' \<Rightarrow> (result, lpd'))"

text \<open>
  A sequence of polls of one latency key in interval mode: each observation
  \<open>(sum, count)\<close> goes through \<^verbatim>\<open>get_last_avg\<close> on the history left by the one
  before; the reported values are collected in order.
\<close>

fun poll_seq ::
  "nat \<Rightarrow> last_data list \<Rightarrow> string \<Rightarrow> string \<Rightarrow> (double \<times> 64 word) list
    \<Rightarrow> double list \<times> last_data list" where
  "poll_seq N lpd dset_n ds_n [] = ([], lpd)"
| "poll_seq N lpd dset_n ds_n (ob # obs) =
     (let (r, lpd') = get_last_avg N True lpd dset_n ds_n (fst ob) (snd ob);
          (rs, lpd'') = poll_seq N lpd' dset_n ds_n obs
      in (r # rs, lpd''))"

section \<open>Name mangling and the split of a key path\<close>

text \<open>
  C strings are lists of characters without the terminating NUL.  A destination
  buffer is given by the string it holds on entry; the callers clear their buffers
  with \<^verbatim>\<open>memset\<close> first, so the bytes after a copied piece are NUL and the result of
  \<^verbatim>\<open>memcpy\<close> at the end of the string is the string with the piece appended.
\<close>

text \<open>\<^verbatim>\<open>toupper\<close> in the C locale.\<close>

definition toupper_c :: "char \<Rightarrow> char" where
  "toupper_c c =
     (let n = (of_char c :: nat)
      in if 97 \<le> n \<and> n \<le> 122 then char_of (n - 32) else c)"

text \<open>
  The successive results of \<^verbatim>\<open>strtok_r\<close> with the delimiters \<^verbatim>\<open>":_-+"\<close>: the maximal
  runs of characters that are not delimiters.  \<open>cur\<close> is the token being read.
\<close>

definition is_delim :: "char \<Rightarrow> bool" where
  "is_delim c = (c = CHR '':'' \<or> c = CHR ''_'' \<or> c = CHR ''-'' \<or> c = CHR ''+'')"

fun strtok_r :: "string \<Rightarrow> string \<Rightarrow> string list" where
  "strtok_r cur [] = (if cur = [] then [] else [cur])"
| "strtok_r cur (c # cs) =
     (if is_delim c
      then (if cur = [] then strtok_r [] cs else cur # strtok_r [] cs)
      else strtok_r (cur @ [c]) cs)"

text \<open>\<^verbatim>\<open>keys[keys_num][0] = toupper(keys[keys_num][0])\<close>\<close>

fun capitalize :: "string \<Rightarrow> string" where
  "capitalize [] = []"
| "capitalize (c # cs) = toupper_c c # cs"

text \<open>The decimal digits that \<^verbatim>\<open>"%zu"\<close> prints.\<close>

fun digits10 :: "nat \<Rightarrow> string" where
  "digits10 n =
     (if n < 10 then [char_of (48 + n)]
      else digits10 (n div 10) @ [char_of (48 + n mod 10)])"

declare digits10.simps [simp del]

text \<open>
  \<^verbatim>\<open>compact_ds_name (source, dest)\<close>; the result is the content of \<open>dest\<close> on return.
  \<^verbatim>\<open>snprintf (buf, n, "%s", s)\<close> keeps at most \<open>n - 1\<close> characters; \<open>len_str\<close> has room
  for two digits.  At most 16 tokens are taken.
\<close>

definition compact_ds_name :: "nat \<Rightarrow> string \<Rightarrow> string \<Rightarrow> string" where
  "compact_ds_name N source dest =
     (if source = [] \<or> dest \<noteq> [] then dest
      else
        let src_len = length source;
            len_str = take (3 - 1) (digits10 src_len);
            append_status = (0 :: 8 word);
            append_status = append_status OR (if last source = CHR ''-'' then 1 else 0);
            append_status = append_status OR (if last source = CHR ''+'' then 2 else 0);
            keys = map capitalize (take 16 (strtok_r [] source));
            tmp = take (N - 1) (concat keys);
            reserved = (0 :: nat);
            too_long = (length tmp > MAX_RRD_DS_NAME_LEN - 1);
            append_status = (if too_long then append_status OR 4 else append_status);
            reserved = (if too_long then reserved + 2 else reserved);
            reserved = (if append_status AND 1 \<noteq> 0 then reserved + 5 else reserved);
            reserved = (if append_status AND 2 \<noteq> 0 then reserved + 4 else reserved);
            dest = take (MAX_RRD_DS_NAME_LEN - reserved - 1) tmp
        in if append_status = 1 then dest @ ''Minus''
           else if append_status = 2 then dest @ ''Plus''
           else if append_status = 4 then dest @ take 2 len_str
           else if append_status = 5 then dest @ ''Minus'' @ take 2 len_str
           else if append_status = 6 then dest @ ''Plus'' @ take 2 len_str
           else dest)"

text \<open>\<^verbatim>\<open>strchr\<close> and \<^verbatim>\<open>strrchr\<close>: the offset of the first and of the last occurrence.\<close>

fun strchr :: "string \<Rightarrow> char \<Rightarrow> nat option" where
  "strchr [] c = None"
| "strchr (x # xs) c = (if x = c then Some 0 else map_option Suc (strchr xs c))"

fun strrchr :: "string \<Rightarrow> char \<Rightarrow> nat option" where
  "strrchr [] c = None"
| "strrchr (x # xs) c =
     (case strrchr xs c of
        Some i \<Rightarrow> Some (Suc i)
      | None \<Rightarrow> if x = c then Some 0 else None)"

text \<open>
  The part of \<^verbatim>\<open>parse_keys\<close> before the label \<^verbatim>\<open>compact\<close>: the contents of
  \<open>dset_name\<close> and of the local \<open>tmp_ds_name\<close>, both cleared beforehand.
  \<^verbatim>\<open>!strncmp (rptr + 1, "type", 4)\<close> holds when the text after the last dot begins
  with \<^verbatim>\<open>type\<close>.
\<close>

definition parse_keys_split :: "nat \<Rightarrow> string \<Rightarrow> string \<times> string" where
  "parse_keys_split N key_str =
     (case (strchr key_str CHR ''.'', strrchr key_str CHR ''.'') of
        (Some ptr, Some rptr) \<Rightarrow>
          let dset_name_len = (if ptr > N - 1 then N - 1 else ptr);
              dset_n = take dset_name_len key_str;
              ds_name_len = (if rptr - ptr > N then N else rptr - ptr);
              is_type = (take 4 (drop (rptr + 1) key_str) = ''type'')
          in if ds_name_len = 0
             then (if is_type then (dset_n, take (N - 1) dset_n)
                   else (dset_n, take (N - 1) (drop (rptr + 1) key_str)))
             else if is_type
             then (dset_n, take (ds_name_len - 1) (drop (ptr + 1) key_str))
             else (dset_n, take (N - 1) (drop (ptr + 1) key_str))
      | _ \<Rightarrow> (take (N - 1) key_str, take (N - 1) key_str))"

text \<open>
  \<^verbatim>\<open>parse_keys (key_str, dset_name, ds_name)\<close>: \<open>None\<close> is the return value \<open>-1\<close>,
  \<open>Some\<close> carries the two output buffers after a return of 0.
\<close>

definition parse_keys :: "nat \<Rightarrow> string \<Rightarrow> string \<Rightarrow> string \<Rightarrow> (string \<times> string) option" where
  "parse_keys N key_str dset_n ds_n =
     (if key_str = [] \<or> dset_n \<noteq> [] \<or> ds_n \<noteq> [] then None
      else
        let (dset_n', tmp_ds_name) = parse_keys_split N key_str
        in Some (dset_n', compact_ds_name N tmp_ds_name ds_n))"

text \<open>
  Dot-separated segments of a key path, for stating the split rule: \<open>join_dots\<close> puts
  a dot between consecutive segments.  \<open>spec_short_name\<close> is the rule in the words of
  the specification: a trailing \<^verbatim>\<open>type\<close> is dropped; with two segments the name is the
  first segment when the last is \<^verbatim>\<open>type\<close> and the last one otherwise; with more, the
  interior segments concatenated.
\<close>

fun join_dots :: "string list \<Rightarrow> string" where
  "join_dots [] = []"
| "join_dots [s] = s"
| "join_dots (s # t # ss) = s @ CHR ''.'' # join_dots (t # ss)"

definition spec_short_name :: "string list \<Rightarrow> string" where
  "spec_short_name segs =
     (if length segs = 2
      then (if last segs = ''type'' then hd segs else last segs)
      else concat (butlast (tl segs)))"

section \<open>Schema model\<close>

text \<open>
  collectd's \<^verbatim>\<open>data_source_t\<close>, \<^verbatim>\<open>data_set_t\<close> and \<^verbatim>\<open>value_t\<close> (declared in plugin.h)
  and \<^verbatim>\<open>struct ceph_daemon\<close>.  An array with its element count is a list:
  \<open>ds_num\<close> is \<open>length (ds s)\<close> and \<open>dset_num\<close> is \<open>length (dset d)\<close>.  The arrays
  \<open>dset\<close> and \<open>pc_types\<close> of a daemon are parallel and grow together.
\<close>

datatype ds_type = DS_TYPE_COUNTER | DS_TYPE_GAUGE | DS_TYPE_DERIVE | DS_TYPE_ABSOLUTE

record data_source =
  dsrc_name :: string
  dsrc_type :: ds_type
  dsrc_min :: double
  dsrc_max :: double

record data_set =
  dset_type :: string
  ds :: "data_source list"

record ceph_daemon =
  version :: "32 word"
  daemon_name :: string
  fsid :: string
  cluster :: string
  asok_path :: string
  dset :: "data_set list"
  pc_types :: "int list list"

text \<open>\<^verbatim>\<open>enum perfcounter_type_d\<close>\<close>

definition PERFCOUNTER_LATENCY :: int where
  "PERFCOUNTER_LATENCY = 4"

definition PERFCOUNTER_DERIVE :: int where
  "PERFCOUNTER_DERIVE = 8"

text \<open>The linear scans; \<open>None\<close> is the return value \<open>-1\<close>.\<close>

fun get_matching_dset_from :: "data_set list \<Rightarrow> string \<Rightarrow> nat \<Rightarrow> nat option" where
  "get_matching_dset_from [] name idx = None"
| "get_matching_dset_from (s # ss) name idx =
     (if dset_type s = name then Some idx else get_matching_dset_from ss name (Suc idx))"

definition get_matching_dset :: "ceph_daemon \<Rightarrow> string \<Rightarrow> nat option" where
  "get_matching_dset d name = get_matching_dset_from (dset d) name 0"

fun get_matching_value_from :: "data_source list \<Rightarrow> string \<Rightarrow> nat \<Rightarrow> nat option" where
  "get_matching_value_from [] name idx = None"
| "get_matching_value_from (x # xs) name idx =
     (if dsrc_name x = name then Some idx else get_matching_value_from xs name (Suc idx))"

definition get_matching_value :: "data_set \<Rightarrow> string \<Rightarrow> nat \<Rightarrow> nat option" where
  "get_matching_value s name num_values =
     get_matching_value_from (take num_values (ds s)) name 0"

text \<open>
  \<^verbatim>\<open>ceph_daemon_add_ds_entry (d, name, pc_type)\<close> under the option
  \<open>convert_special_metrics\<close>.  The return code is an \<^verbatim>\<open>int\<close> as in the source:
  \<^verbatim>\<open>-ENAMETOOLONG\<close>, 1 when \<^verbatim>\<open>parse_keys\<close> fails, \<^verbatim>\<open>-ENOMEM\<close> when a \<^verbatim>\<open>realloc\<close>
  fails, 0 otherwise.  On a failure the daemon is returned as it was.
\<close>

definition ceph_daemon_add_ds_entry ::
  "nat \<Rightarrow> bool \<Rightarrow> bool \<Rightarrow> ceph_daemon \<Rightarrow> string \<Rightarrow> int \<Rightarrow> int \<times> ceph_daemon" where
  "ceph_daemon_add_ds_entry N convert_special_metrics alloc_ok d name pc_type =
     (if length name + 1 > N then (- errno_of ENAMETOOLONG, d)
      else
        case parse_keys N name [] [] of
          None \<Rightarrow> (1, d)
        | Some (dset_n, ds_n) \<Rightarrow>
            if \<not> alloc_ok then (- errno_of ENOMEM, d)
            else
              let idx = get_matching_dset d dset_n;
                  pc_type =
                    (if convert_special_metrics \<and> dset_n = ''filestore''
                        \<and> ds_n = ''JournalWrBytes''
                     then 10 else pc_type);
                  ty = (if pc_type AND PERFCOUNTER_DERIVE \<noteq> 0
                        then DS_TYPE_DERIVE else DS_TYPE_GAUGE);
                  new_ds = \<lparr>dsrc_name = take (MAX_RRD_DS_NAME_LEN - 1) ds_n,
                            dsrc_type = ty,
                            dsrc_min = (if ty = DS_TYPE_DERIVE then Fin 0 else NaN),
                            dsrc_max = NaN\<rparr>
              in case idx of
                   None \<Rightarrow>
                     (0, d\<lparr>dset := dset d @ [\<lparr>dset_type = take (N - 1) dset_n, ds = [new_ds]\<rparr>],
                            pc_types := pc_types d @ [[pc_type]]\<rparr>)
                 | Some i \<Rightarrow>
                     (0, d\<lparr>dset := (dset d)[i := (dset d ! i)\<lparr>ds := ds (dset d ! i) @ [new_ds]\<rparr>],
                            pc_types := (pc_types d)[i := pc_types d ! i @ [pc_type]]\<rparr>))"

text \<open>
  The value kind that \<^verbatim>\<open>node_handler_fetch_data\<close> reads off the stored type bits, in
  the order of its \<^verbatim>\<open>if\<close> chain.
\<close>

datatype value_kind = LatencyPair | Derive | Gauge

definition pc_kind :: "int \<Rightarrow> value_kind" where
  "pc_kind pc =
     (if pc AND PERFCOUNTER_LATENCY \<noteq> 0 then LatencyPair
      else if pc AND PERFCOUNTER_DERIVE \<noteq> 0 then Derive
      else Gauge)"

text \<open>A daemon before schema discovery, for concrete runs.\<close>

definition osd0 :: ceph_daemon where
  "osd0 = \<lparr>version = 0, daemon_name = ''osd.0'', fsid = [], cluster = ''ceph'',
            asok_path = ''/var/run/ceph/ceph-osd.0.asok'', dset = [], pc_types = []\<rparr>"

section \<open>Key-path reducer\<close>

text \<open>
  \<^verbatim>\<open>struct yajl_struct\<close>: the key stack \<open>state\<close> (an array of \<open>D\<close> entries, each a key
  buffer of \<open>N\<close> bytes with its \<open>key_len\<close>) and the \<open>depth\<close>, a C \<^verbatim>\<open>int\<close> that the
  callbacks also decrement below zero.  The handler and its argument are passed to the
  callbacks next to the struct, since the type of the argument changes with the
  request.  A handler returns an \<^verbatim>\<open>int\<close> and the new content of its argument.
\<close>

record yajl_struct =
  state :: "(string \<times> nat) list"
  depth :: int

definition RETRY_AVGCOUNT :: int where
  "RETRY_AVGCOUNT = - 1"

datatype cb_ret = CEPH_CB_CONTINUE | CEPH_CB_ABORT

text \<open>
  What C leaves undefined is a value of its own: an access to the key stack outside
  its bounds (with the index), a key or path that does not fit its buffer, a read of an
  object that was never written.
\<close>

datatype fault = OutOfBounds int | BufferOverflow | Indeterminate

type_synonym 'a node_handler_t = "'a \<Rightarrow> string \<Rightarrow> string \<Rightarrow> fault + (int \<times> 'a)"

text \<open>\<^verbatim>\<open>yajl->state[i]\<close>\<close>

definition state_at :: "yajl_struct \<Rightarrow> int \<Rightarrow> fault + (string \<times> nat)" where
  "state_at yajl i =
     (if 0 \<le> i \<and> i < int (length (state yajl)) then Inr (state yajl ! nat i)
      else Inl (OutOfBounds i))"

text \<open>
  \<^verbatim>\<open>ssnprintf (key, state[0].key_len, "%s", state[0].key)\<close> into the local
  \<^verbatim>\<open>char key[128]\<close>: at most \<open>key_len - 1\<close> characters; with a \<open>key_len\<close> of 0 the
  buffer stays unwritten.
\<close>

definition first_key :: "yajl_struct \<Rightarrow> fault + string" where
  "first_key yajl =
     (case state_at yajl 0 of
        Inl f \<Rightarrow> Inl f
      | Inr (k, klen) \<Rightarrow>
          if klen = 0 then Inl Indeterminate
          else if klen > 128 then Inl BufferOverflow
          else Inr (take (klen - 1) k))"

text \<open>\<^verbatim>\<open>strncat (key, src, n)\<close> into \<^verbatim>\<open>char key[128]\<close>\<close>

definition strncat_key :: "string \<Rightarrow> string \<Rightarrow> nat \<Rightarrow> fault + string" where
  "strncat_key key src n =
     (let key' = key @ take n src
      in if length key' > 127 then Inl BufferOverflow else Inr key')"

text \<open>
  The \<^verbatim>\<open>for\<close> loop of \<^verbatim>\<open>ceph_cb_number\<close> over the indices \<open>1, \<dots>, depth - 1\<close>.  It
  ends with \<open>Inr None\<close> where the source returns from inside the loop (the skipped
  \<^verbatim>\<open>avgcount\<close>), and with the key built so far and \<open>latency_type\<close> otherwise.  The
  operands of \<^verbatim>\<open>&&\<close> are read from left to right, and only as far as needed.
\<close>

fun number_loop ::
  "bool \<Rightarrow> yajl_struct \<Rightarrow> nat list \<Rightarrow> string \<Rightarrow> fault + (string \<times> bool) option" where
  "number_loop convert_special_metrics yajl [] key = Inr (Some (key, False))"
| "number_loop convert_special_metrics yajl (i # is) key =
     (case state_at yajl (int i) of
        Inl f \<Rightarrow> Inl f
      | Inr (k, klen) \<Rightarrow>
          if int i = depth yajl - 1 \<and> (k = ''avgcount'' \<or> k = ''sum'')
          then
            (if convert_special_metrics
             then
               (case state_at yajl (int i - 1) of
                  Inl f \<Rightarrow> Inl f
                | Inr (k1, klen1) \<Rightarrow>
                    if k1 = ''journal_wr_bytes''
                    then
                      (case state_at yajl (int i - 2) of
                         Inl f \<Rightarrow> Inl f
                       | Inr (k2, klen2) \<Rightarrow>
                           if k2 = ''filestore'' \<and> k = ''avgcount'' then Inr None
                           else Inr (Some (key, True)))
                    else Inr (Some (key, True)))
             else Inr (Some (key, True)))
          else
            (case strncat_key key ''.'' 1 of
               Inl f \<Rightarrow> Inl f
             | Inr key1 \<Rightarrow>
                 (case strncat_key key1 k (klen + 1) of
                    Inl f \<Rightarrow> Inl f
                  | Inr key2 \<Rightarrow> number_loop convert_special_metrics yajl is key2)))"

definition ceph_cb_number ::
  "bool \<Rightarrow> 'a node_handler_t \<Rightarrow> yajl_struct \<times> 'a \<Rightarrow> string
    \<Rightarrow> fault + (cb_ret \<times> yajl_struct \<times> 'a)" where
  "ceph_cb_number convert_special_metrics handler ya number_val =
     (let (yajl, handler_arg) = ya
      in case first_key yajl of
           Inl f \<Rightarrow> Inl f
         | Inr key0 \<Rightarrow>
             (case number_loop convert_special_metrics yajl [1 ..< nat (depth yajl)] key0 of
                Inl f \<Rightarrow> Inl f
              | Inr None \<Rightarrow>
                  Inr (CEPH_CB_CONTINUE, yajl\<lparr>depth := depth yajl - 1\<rparr>, handler_arg)
              | Inr (Some (key, latency_type)) \<Rightarrow>
                  (case handler handler_arg number_val key of
                     Inl f \<Rightarrow> Inl f
                   | Inr (result, arg1) \<Rightarrow>
                       let again =
                             (if result = RETRY_AVGCOUNT \<and> latency_type
                              then
                                (case strncat_key key ''.'' 1 of
                                   Inl f \<Rightarrow> Inl f
                                 | Inr key1 \<Rightarrow>
                                     (case state_at yajl (depth yajl - 1) of
                                        Inl f \<Rightarrow> Inl f
                                      | Inr (k, klen) \<Rightarrow>
                                          (case strncat_key key1 k (klen + 1) of
                                             Inl f \<Rightarrow> Inl f
                                           | Inr key2 \<Rightarrow> handler arg1 number_val key2)))
                              else Inr (result, arg1))
                       in case again of
                            Inl f \<Rightarrow> Inl f
                          | Inr (result, arg2) \<Rightarrow>
                              if result = - errno_of ENOMEM
                              then Inr (CEPH_CB_ABORT, yajl, arg2)
                              else Inr (CEPH_CB_CONTINUE,
                                        yajl\<lparr>depth := depth yajl - 1\<rparr>, arg2))))"

text \<open>\<^verbatim>\<open>#define FSID_STRING_LEN 37\<close>\<close>

definition FSID_STRING_LEN :: nat where
  "FSID_STRING_LEN = 37"

definition ceph_cb_string ::
  "'a node_handler_t \<Rightarrow> yajl_struct \<times> 'a \<Rightarrow> string
    \<Rightarrow> fault + (cb_ret \<times> yajl_struct \<times> 'a)" where
  "ceph_cb_string handler ya string_val =
     (let (yajl, handler_arg) = ya
      in case state_at yajl 0 of
           Inl f \<Rightarrow> Inl f
         | Inr (k0, klen0) \<Rightarrow>
             if depth yajl \<noteq> 1 \<or> k0 \<noteq> ''fsid''
                \<or> length string_val \<noteq> FSID_STRING_LEN - 1
             then Inr (CEPH_CB_CONTINUE,
                       (if depth yajl > 0 then yajl\<lparr>depth := depth yajl - 1\<rparr> else yajl),
                       handler_arg)
             else
               (case first_key yajl of
                  Inl f \<Rightarrow> Inl f
                | Inr key \<Rightarrow>
                    (case handler handler_arg string_val key of
                       Inl f \<Rightarrow> Inl f
                     | Inr (result, arg1) \<Rightarrow>
                         Inr (CEPH_CB_CONTINUE, yajl\<lparr>depth := depth yajl - 1\<rparr>, arg1))))"

text \<open>
  \<^verbatim>\<open>ceph_cb_map_key\<close>, with \<open>D\<close> for \<^verbatim>\<open>YAJL_MAX_DEPTH\<close> and \<open>N\<close> for the size of a key
  buffer.  The stored \<open>key_len\<close> is the length of the key plus one.
\<close>

definition ceph_cb_map_key ::
  "nat \<Rightarrow> nat \<Rightarrow> yajl_struct \<Rightarrow> string \<Rightarrow> fault + (cb_ret \<times> yajl_struct)" where
  "ceph_cb_map_key D N yajl key =
     (if depth yajl + 1 \<ge> int D then Inr (CEPH_CB_ABORT, yajl)
      else if depth yajl < 0 \<or> depth yajl \<ge> int (length (state yajl))
      then Inl (OutOfBounds (depth yajl))
      else if length key + 1 > N then Inl BufferOverflow
      else Inr (CEPH_CB_CONTINUE,
                yajl\<lparr>state := (state yajl)[nat (depth yajl) := (key, length key + 1)],
                     depth := depth yajl + 1\<rparr>))"

definition ceph_cb_end_map :: "yajl_struct \<Rightarrow> cb_ret \<times> yajl_struct" where
  "ceph_cb_end_map yajl = (CEPH_CB_CONTINUE, yajl\<lparr>depth := depth yajl - 1\<rparr>)"

text \<open>
  The parse events that the yajl library delivers to the \<^verbatim>\<open>callbacks\<close> table, in
  document order; a number comes as its text.  \<^verbatim>\<open>ceph_cb_null\<close>, \<^verbatim>\<open>ceph_cb_boolean\<close>,
  \<^verbatim>\<open>ceph_cb_start_map\<close>, \<^verbatim>\<open>ceph_cb_start_array\<close> and \<^verbatim>\<open>ceph_cb_end_array\<close> only return
  \<^verbatim>\<open>CEPH_CB_CONTINUE\<close>.
\<close>

datatype json_event =
    EvNull | EvBoolean bool | EvNumber string | EvString string
  | EvStartMap | EvMapKey string | EvEndMap | EvStartArray | EvEndArray

definition callback ::
  "nat \<Rightarrow> nat \<Rightarrow> bool \<Rightarrow> 'a node_handler_t \<Rightarrow> yajl_struct \<times> 'a \<Rightarrow> json_event
    \<Rightarrow> fault + (cb_ret \<times> yajl_struct \<times> 'a)" where
  "callback D N convert_special_metrics handler ya ev =
     (case ev of
        EvNumber s \<Rightarrow> ceph_cb_number convert_special_metrics handler ya s
      | EvString s \<Rightarrow> ceph_cb_string handler ya s
      | EvMapKey k \<Rightarrow>
          (case ceph_cb_map_key D N (fst ya) k of
             Inl f \<Rightarrow> Inl f
           | Inr (r, yajl') \<Rightarrow> Inr (r, yajl', snd ya))
      | EvEndMap \<Rightarrow>
          (let (r, yajl') = ceph_cb_end_map (fst ya) in Inr (r, yajl', snd ya))
      | _ \<Rightarrow> Inr (CEPH_CB_CONTINUE, fst ya, snd ya))"

text \<open>
  The library calls one callback per event and stops at the first that returns
  \<^verbatim>\<open>CEPH_CB_ABORT\<close>; the flag in the result tells whether the parse was cancelled.
\<close>

fun run_callbacks ::
  "nat \<Rightarrow> nat \<Rightarrow> bool \<Rightarrow> 'a node_handler_t \<Rightarrow> yajl_struct \<times> 'a \<Rightarrow> json_event list
    \<Rightarrow> fault + (bool \<times> yajl_struct \<times> 'a)" where
  "run_callbacks D N csm handler ya [] = Inr (False, ya)"
| "run_callbacks D N csm handler ya (ev # evs) =
     (case callback D N csm handler ya ev of
        Inl f \<Rightarrow> Inl f
      | Inr (CEPH_CB_ABORT, ya') \<Rightarrow> Inr (True, ya')
      | Inr (CEPH_CB_CONTINUE, ya') \<Rightarrow> run_callbacks D N csm handler ya' evs)"

text \<open>
  A JSON document and the events of its traversal, for stating what the reducer does
  on a given reply.
\<close>

datatype json =
    JNull | JBool bool | JNumber string | JString string
  | JMap "(string \<times> json) list" | JArray "json list"

fun yajl_events :: "json \<Rightarrow> json_event list" where
  "yajl_events JNull = [EvNull]"
| "yajl_events (JBool b) = [EvBoolean b]"
| "yajl_events (JNumber s) = [EvNumber s]"
| "yajl_events (JString s) = [EvString s]"
| "yajl_events (JMap kvs) =
     EvStartMap # concat (map (\<lambda>kv. EvMapKey (fst kv) # yajl_events (snd kv)) kvs) @ [EvEndMap]"
| "yajl_events (JArray vs) =
     EvStartArray # concat (map yajl_events vs) @ [EvEndArray]"

text \<open>
  A handler that records each call \<open>(value, key path)\<close> in front of the argument of
  the handler \<open>h\<close> it wraps, and the cleared key stack of a new connection.
\<close>

definition logging :: "'a node_handler_t \<Rightarrow> ((string \<times> string) list \<times> 'a) node_handler_t" where
  "logging h la val key =
     (case h (snd la) val key of
        Inl f \<Rightarrow> Inl f
      | Inr (r, a') \<Rightarrow> Inr (r, (fst la @ [(val, key)], a')))"

definition yajl_init :: "nat \<Rightarrow> yajl_struct" where
  "yajl_init D = \<lparr>state = replicate D ([], 0), depth = 0\<rparr>"

definition journal_reply :: json where
  "journal_reply =
     JMap [(''filestore'',
            JMap [(''journal_wr_bytes'',
                   JMap [(''avgcount'', JNumber ''7''), (''sum'', JNumber ''42.0'')])])]"

text \<open>The calls that a run of the reducer made to a \<open>logging\<close> handler.\<close>

definition calls_of ::
  "fault + (bool \<times> yajl_struct \<times> ((string \<times> string) list \<times> 'a)) \<Rightarrow> fault + (string \<times> string) list" where
  "calls_of r = (case r of Inl f \<Rightarrow> Inl f | Inr (c, y, la) \<Rightarrow> Inr (fst la))"

section \<open>Leaf handlers\<close>

text \<open>
  The conversions of the C library on the text of a JSON number: \<^verbatim>\<open>atoi\<close>,
  \<^verbatim>\<open>sscanf\<close> with \<^verbatim>\<open>"%" PRIu64\<close> and with \<^verbatim>\<open>"%lf"\<close>.  Each skips white space, reads
  an optional sign and the longest run of decimal digits (\<^verbatim>\<open>"%lf"\<close> also a fraction and
  an exponent); \<open>None\<close> means that nothing was converted and the destination was not
  written.  An unsigned value beyond 64 bits is read as the largest one.
\<close>

definition isspace_c :: "char \<Rightarrow> bool" where
  "isspace_c c = (let n = (of_char c :: nat) in n = 32 \<or> (9 \<le> n \<and> n \<le> 13))"

definition isdigit_c :: "char \<Rightarrow> bool" where
  "isdigit_c c = (let n = (of_char c :: nat) in 48 \<le> n \<and> n \<le> 57)"

definition decimal_of :: "string \<Rightarrow> int" where
  "decimal_of s = foldl (\<lambda>n c. 10 * n + ((of_char c :: int) - 48)) 0 s"

definition read_sign :: "string \<Rightarrow> bool \<times> string" where
  "read_sign s =
     (case s of
        [] \<Rightarrow> (False, s)
      | c # r \<Rightarrow>
          if c = CHR ''-'' then (True, r)
          else if c = CHR ''+'' then (False, r)
          else (False, s))"

definition atoi :: "string \<Rightarrow> int" where
  "atoi s =
     (let (neg, r) = read_sign (dropWhile isspace_c s);
          n = decimal_of (takeWhile isdigit_c r)
      in if neg then - n else n)"

definition sscanf_u64 :: "string \<Rightarrow> 64 word option" where
  "sscanf_u64 s =
     (let (neg, r) = read_sign (dropWhile isspace_c s);
          digits = takeWhile isdigit_c r;
          n = decimal_of digits;
          v = (if n \<ge> 2 ^ 64 then - 1 else (word_of_int n :: 64 word))
      in if digits = [] then None else Some (if neg then - v else v))"

definition sscanf_lf :: "string \<Rightarrow> double option" where
  "sscanf_lf s =
     (let (neg, r) = read_sign (dropWhile isspace_c s);
          ip = takeWhile isdigit_c r;
          r1 = dropWhile isdigit_c r;
          fp = (case r1 of [] \<Rightarrow> [] | c # t \<Rightarrow>
                  if c = CHR ''.'' then takeWhile isdigit_c t else []);
          r2 = (case r1 of [] \<Rightarrow> [] | c # t \<Rightarrow>
                  if c = CHR ''.'' then dropWhile isdigit_c t else r1);
          ex = (case r2 of [] \<Rightarrow> 0 | c # t \<Rightarrow>
                  if c = CHR ''e'' \<or> c = CHR ''E''
                  then (let (eneg, t1) = read_sign t;
                            e = decimal_of (takeWhile isdigit_c t1)
                        in if eneg then - e else e)
                  else 0);
          mant = real_of_int (decimal_of (ip @ fp)) / 10 ^ length fp;
          v = (if 0 \<le> ex then mant * 10 ^ nat ex else mant / 10 ^ nat (- ex))
      in if ip = [] \<and> fp = [] then None
         else Some (Fin (if neg then - v else v)))"

text \<open>
  \<^verbatim>\<open>value_t\<close> is a union; only its \<open>gauge\<close> and \<open>derive\<close> members are written.
  \<open>VZero\<close> is the slot as \<^verbatim>\<open>calloc\<close> leaves it.  In \<^verbatim>\<open>struct values_tmp\<close> the member
  \<open>holder_num\<close> is \<open>length (vh v)\<close>, and \<open>values_len\<close> of a holder, which is never
  read, is left out.  The initial \<open>avgcount\<close> of \<open>-1\<close> is the largest 64-bit value.
\<close>

datatype value_t = VZero | VGauge double | VDerive "64 word"

record values_tmp =
  vt_d :: ceph_daemon
  vh :: "value_t list list"
  avgcount :: "64 word"

definition set_value :: "values_tmp \<Rightarrow> nat \<Rightarrow> nat \<Rightarrow> value_t \<Rightarrow> values_tmp" where
  "set_value vtmp dset_idx ds_idx v =
     vtmp\<lparr>vh := (vh vtmp)[dset_idx := (vh vtmp ! dset_idx)[ds_idx := v]]\<rparr>"

text \<open>
  \<^verbatim>\<open>node_handler_fetch_data\<close>.  Its argument here is the \<open>values_tmp\<close> together with
  the global history \<open>last_poll_data\<close>; \<open>long_run_latency_avg\<close> is the configuration
  option.  Where \<^verbatim>\<open>sscanf\<close> converts nothing into a local that is then read, the result
  is the fault \<open>Indeterminate\<close>.
\<close>

definition node_handler_fetch_data ::
  "nat \<Rightarrow> bool \<Rightarrow> bool \<Rightarrow> (values_tmp \<times> last_data list) node_handler_t" where
  "node_handler_fetch_data N long_run_latency_avg alloc_ok arg val key =
     (let (vtmp, lpd) = arg
      in case parse_keys N key [] [] of
           None \<Rightarrow> Inr (1, arg)
         | Some (dset_n, ds_n) \<Rightarrow>
             (case get_matching_dset (vt_d vtmp) dset_n of
                None \<Rightarrow> Inr (1, arg)
              | Some dset_idx \<Rightarrow>
                  (case get_matching_value (dset (vt_d vtmp) ! dset_idx) ds_n
                          (length (ds (dset (vt_d vtmp) ! dset_idx))) of
                     None \<Rightarrow> Inr (RETRY_AVGCOUNT, arg)
                   | Some ds_idx \<Rightarrow>
                       let pc = pc_types (vt_d vtmp) ! dset_idx ! ds_idx
                       in if pc AND PERFCOUNTER_LATENCY \<noteq> 0
                          then
                            (if avgcount vtmp = - 1
                             then
                               (case sscanf_u64 val of
                                  None \<Rightarrow> Inr (0, arg)
                                | Some c \<Rightarrow> Inr (0, (vtmp\<lparr>avgcount := c\<rparr>, lpd)))
                             else
                               (case sscanf_lf val of
                                  None \<Rightarrow> Inl Indeterminate
                                | Some sum_val \<Rightarrow>
                                    let vtmp1 = (if avgcount vtmp = 0
                                                 then vtmp\<lparr>avgcount := 1\<rparr> else vtmp)
                                    in if long_run_latency_avg
                                       then
                                         (let result = ddiv sum_val (double_of_u64 (avgcount vtmp1))
                                          in Inr (0, ((set_value vtmp1 dset_idx ds_idx
                                                         (VGauge result))\<lparr>avgcount := - 1\<rparr>, lpd)))
                                       else
                                         (let (result, lpd') =
                                                get_last_avg N alloc_ok lpd dset_n ds_n sum_val
                                                  (avgcount vtmp1)
                                          in if deq result (double_of_int (- errno_of ENOMEM))
                                             then Inr (- errno_of ENOMEM, (vtmp1, lpd'))
                                             else Inr (0, ((set_value vtmp1 dset_idx ds_idx
                                                         (VGauge result))\<lparr>avgcount := - 1\<rparr>, lpd')))))
                          else if pc AND PERFCOUNTER_DERIVE \<noteq> 0
                          then
                            (case sscanf_u64 val of
                               None \<Rightarrow> Inl Indeterminate
                             | Some derive_val \<Rightarrow>
                                 Inr (0, (set_value vtmp dset_idx ds_idx (VDerive derive_val), lpd)))
                          else
                            (case sscanf_lf val of
                               None \<Rightarrow> Inl Indeterminate
                             | Some other_val \<Rightarrow>
                                 Inr (0, (set_value vtmp dset_idx ds_idx (VGauge other_val), lpd))))))"

definition node_handler_define_schema ::
  "nat \<Rightarrow> bool \<Rightarrow> bool \<Rightarrow> ceph_daemon node_handler_t" where
  "node_handler_define_schema N convert_special_metrics alloc_ok d val key =
     Inr (ceph_daemon_add_ds_entry N convert_special_metrics alloc_ok d key (atoi val))"

definition node_handler_parse_fsid :: "ceph_daemon node_handler_t" where
  "node_handler_parse_fsid d val key = Inr (0, d\<lparr>fsid := take (FSID_STRING_LEN - 1) val\<rparr>)"

text \<open>
  One latency observation as the reducer delivers it in a data reply: the text of
  \<^verbatim>\<open>avgcount\<close> and then the text of \<^verbatim>\<open>sum\<close>, both under the same key path.
\<close>

definition fetch_pair ::
  "nat \<Rightarrow> bool \<Rightarrow> bool \<Rightarrow> values_tmp \<times> last_data list \<Rightarrow> string \<Rightarrow> string \<Rightarrow> string
    \<Rightarrow> fault + (int \<times> (values_tmp \<times> last_data list))" where
  "fetch_pair N long_run_latency_avg alloc_ok arg key count_text sum_text =
     (case node_handler_fetch_data N long_run_latency_avg alloc_ok arg count_text key of
        Inl f \<Rightarrow> Inl f
      | Inr (r, arg1) \<Rightarrow>
          if r \<noteq> 0 then Inr (r, arg1)
          else node_handler_fetch_data N long_run_latency_avg alloc_ok arg1 sum_text key)"

text \<open>
  The daemon \<open>osd0\<close> after schema discovery has reported the one latency counter
  \<^verbatim>\<open>osd.op_latency\<close> with the type bits 5, and the values of a poll before its reply is
  parsed.
\<close>

definition osd_latency :: ceph_daemon where
  "osd_latency =
     osd0\<lparr>dset := [\<lparr>dset_type = ''osd'',
                      ds = [\<lparr>dsrc_name = ''OpLatency'', dsrc_type = DS_TYPE_GAUGE,
                             dsrc_min = NaN, dsrc_max = NaN\<rparr>]\<rparr>],
          pc_types := [[5]]\<rparr>"

definition latency_poll :: values_tmp where
  "latency_poll = \<lparr>vt_d = osd_latency, vh = [[VZero]], avgcount = - 1\<rparr>"

section \<open>Connection state machine\<close>

datatype cstate_t =
    CSTATE_UNCONNECTED | CSTATE_WRITE_REQUEST | CSTATE_READ_VERSION
  | CSTATE_READ_AMT | CSTATE_READ_JSON

text \<open>\<^verbatim>\<open>enum request_type_t\<close>; a connection keeps its request type in a \<^verbatim>\<open>uint32_t\<close>.\<close>

definition ASOK_REQ_VERSION :: "32 word" where "ASOK_REQ_VERSION = 0"
definition ASOK_REQ_DATA :: "32 word" where "ASOK_REQ_DATA = 1"
definition ASOK_REQ_SCHEMA :: "32 word" where "ASOK_REQ_SCHEMA = 2"
definition ASOK_REQ_FSID :: "32 word" where "ASOK_REQ_FSID = 3"
definition ASOK_REQ_NONE :: "32 word" where "ASOK_REQ_NONE = 1000"

text \<open>
  \<^verbatim>\<open>struct cconn\<close>.  The daemon that \<open>d\<close> points to is held in the connection (each
  daemon has one connection per cycle) and written back when the cycle ends.  \<open>io_json\<close>
  is \<open>None\<close> for a NULL pointer.  \<open>io_word\<close> holds the four bytes, in the order of
  arrival, of the word that \<^verbatim>\<open>read\<close> is filling (\<open>d->version\<close> or \<open>json_len\<close>):
  \<^verbatim>\<open>ntohl\<close> of a word whose memory holds these bytes is their big-endian value,
  whatever the byte order of the host.
\<close>

record cconn =
  io_d :: ceph_daemon
  io_request_type :: "32 word"
  io_state :: cstate_t
  io_asok :: int
  io_amt :: "32 word"
  io_json_len :: "32 word"
  io_json :: "8 word list option"
  io_yajl :: yajl_struct
  io_word :: "8 word list"

definition ntohl_bytes :: "8 word list \<Rightarrow> 32 word" where
  "ntohl_bytes bs = foldl (\<lambda>w b. push_bit 8 w OR ucast b) 0 (take 4 bs)"

text \<open>
  The result of one \<^verbatim>\<open>read\<close> or \<^verbatim>\<open>write\<close> (after \<^verbatim>\<open>RETRY_ON_EINTR\<close>): the return
  value, negative for \<open>-errno\<close>, and for a \<^verbatim>\<open>read\<close> the bytes that arrived.
  \<open>store_bytes\<close> puts them into a buffer at an offset; writing past the end of the
  buffer is a fault.
\<close>

record io_res =
  io_ret :: int
  io_data :: "8 word list"

definition store_bytes :: "8 word list \<Rightarrow> nat \<Rightarrow> 8 word list \<Rightarrow> fault + 8 word list" where
  "store_bytes buf off bs =
     (if off + length bs > length buf then Inl BufferOverflow
      else Inr (take off buf @ bs @ drop (off + length bs) buf))"

text \<open>
  What lies outside ceph.c: the two configuration options, the sizes from the headers,
  the host name, the dispatch sink, and the yajl parser, which turns the bytes of a reply
  into parse events and says how the text ended.
\<close>

datatype lex_end = LexComplete | LexError | LexIncomplete

record value_list =
  vl_host :: string
  vl_plugin :: string
  vl_plugin_instance :: string
  vl_type :: string
  vl_values :: "value_t list"

record config =
  DATA_MAX_NAME_LEN :: nat
  YAJL_MAX_DEPTH :: nat
  cfg_long_run_latency_avg :: bool
  cfg_convert_special_metrics :: bool
  hostname_g :: string
  plugin_dispatch_values :: "value_list \<Rightarrow> int"
  yajl_parse :: "8 word list \<Rightarrow> json_event list \<times> lex_end"

text \<open>
  The state shared by all connections: the global history and, as a record of the
  effects, the value lists handed to the dispatch sink, the descriptors that \<^verbatim>\<open>socket\<close>
  returned and the descriptors passed to \<^verbatim>\<open>close\<close>, each in order.
\<close>

record world =
  last_poll_data :: "last_data list"
  dispatched :: "value_list list"
  opened_fds :: "int list"
  closed_fds :: "int list"

text \<open>
  \<^verbatim>\<open>cconn_connect\<close>.  Its three system calls have their results as input: \<^verbatim>\<open>socket\<close>
  gives the new descriptor, \<^verbatim>\<open>connect\<close> (after \<^verbatim>\<open>RETRY_ON_EINTR\<close>) and \<^verbatim>\<open>fcntl\<close> give
  0; a failed call is given by its negative \<open>-errno\<close>, which is what the function then
  returns.  A descriptor that \<^verbatim>\<open>socket\<close> returned is open from then on.  It is stored in
  the connection once \<^verbatim>\<open>connect\<close> and \<^verbatim>\<open>fcntl\<close> have succeeded; when one of them fails
  the function returns the error, and neither closes the descriptor nor stores it.
\<close>

record connect_res =
  socket_ret :: int
  connect_ret :: int
  fcntl_ret :: int

definition cconn_connect :: "connect_res \<Rightarrow> cconn \<Rightarrow> world \<Rightarrow> int \<times> cconn \<times> world" where
  "cconn_connect res io w =
     (if io_state io \<noteq> CSTATE_UNCONNECTED then (- errno_of EDOM, io, w)
      else if socket_ret res < 0 then (socket_ret res, io, w)
      else
        (let fd = socket_ret res;
             w1 = w\<lparr>opened_fds := opened_fds w @ [fd]\<rparr>
         in if connect_ret res < 0 then (connect_ret res, io, w1)
            else if fcntl_ret res \<noteq> 0 then (fcntl_ret res, io, w1)
            else (0, io\<lparr>io_asok := fd, io_state := CSTATE_WRITE_REQUEST, io_amt := 0,
                          io_json_len := 0, io_json := None\<rparr>, w1)))"

text \<open>
  \<^verbatim>\<open>cconn_close\<close>: the descriptor, unless it is \<open>-1\<close>, is passed to \<^verbatim>\<open>close\<close>; the
  buffer is freed.
\<close>

definition cconn_close :: "cconn \<Rightarrow> world \<Rightarrow> cconn \<times> world" where
  "cconn_close io w =
     (io\<lparr>io_state := CSTATE_UNCONNECTED, io_asok := - 1, io_amt := 0, io_json_len := 0,
         io_json := None\<rparr>,
      if io_asok io \<noteq> - 1 then w\<lparr>closed_fds := closed_fds w @ [io_asok io]\<rparr> else w)"

text \<open>
  \<^verbatim>\<open>traverse_json\<close> and the final \<^verbatim>\<open>yajl_complete_parse\<close> on the events of the
  reply: 1 when a callback cancelled the parse or the text is malformed, else 0.
\<close>

definition traverse_json ::
  "config \<Rightarrow> 'a node_handler_t \<Rightarrow> yajl_struct \<times> 'a \<Rightarrow> json_event list \<times> lex_end
    \<Rightarrow> fault + (int \<times> yajl_struct \<times> 'a)" where
  "traverse_json cfg handler ya parsed =
     (case run_callbacks (YAJL_MAX_DEPTH cfg) (DATA_MAX_NAME_LEN cfg)
             (cfg_convert_special_metrics cfg) handler ya (fst parsed) of
        Inl f \<Rightarrow> Inl f
      | Inr (cancelled, ya') \<Rightarrow>
          Inr (if cancelled \<or> snd parsed = LexError then 1 else 0, ya'))"

text \<open>The plugin instance string that \<^verbatim>\<open>cconn_process_data\<close> builds.\<close>

definition plugin_instance :: "nat \<Rightarrow> ceph_daemon \<Rightarrow> string" where
  "plugin_instance N dm =
     (let chars_remaining = N;
          tmp = sstrncpy (daemon_name dm) chars_remaining;
          chars_remaining = chars_remaining - length (daemon_name dm);
          tmp =
            (if chars_remaining \<ge> length (cluster dm) + 1
             then
               (let tmp = tmp @ take chars_remaining ''-'';
                    chars_remaining = chars_remaining - 1;
                    tmp = tmp @ take chars_remaining (cluster dm);
                    chars_remaining = chars_remaining - length (cluster dm)
                in if chars_remaining \<ge> FSID_STRING_LEN + 1
                   then (let tmp = tmp @ take chars_remaining ''.'';
                             chars_remaining = chars_remaining - 1
                         in tmp @ take chars_remaining (fsid dm))
                   else tmp)
             else tmp)
      in sstrncpy tmp N)"

text \<open>The dispatch loop: one value list per data set, until the sink refuses one.\<close>

fun dispatch_all ::
  "config \<Rightarrow> ceph_daemon \<Rightarrow> (data_set \<times> value_t list) list \<Rightarrow> value_list list
    \<Rightarrow> int \<times> value_list list" where
  "dispatch_all cfg dm [] out = (0, out)"
| "dispatch_all cfg dm (sv # svs) out =
     (let vl = \<lparr>vl_host = sstrncpy (hostname_g cfg) (DATA_MAX_NAME_LEN cfg),
                vl_plugin = sstrncpy ''ceph'' (DATA_MAX_NAME_LEN cfg),
                vl_plugin_instance = plugin_instance (DATA_MAX_NAME_LEN cfg) dm,
                vl_type = sstrncpy (dset_type (fst sv)) (DATA_MAX_NAME_LEN cfg),
                vl_values = snd sv\<rparr>;
          ret = plugin_dispatch_values cfg vl
      in if ret \<noteq> 0 then (ret, out @ [vl]) else dispatch_all cfg dm svs (out @ [vl]))"

definition cconn_process_data ::
  "config \<Rightarrow> bool \<Rightarrow> world \<Rightarrow> cconn \<Rightarrow> json_event list \<times> lex_end
    \<Rightarrow> fault + (int \<times> cconn \<times> world)" where
  "cconn_process_data cfg alloc_ok w io parsed =
     (if \<not> alloc_ok then Inr (- errno_of ENOMEM, io, w)
      else
        let vtmp = \<lparr>vt_d = io_d io,
                    vh = map (\<lambda>s. replicate (length (ds s)) VZero) (dset (io_d io)),
                    avgcount = - 1\<rparr>
        in case traverse_json cfg
                  (node_handler_fetch_data (DATA_MAX_NAME_LEN cfg)
                     (cfg_long_run_latency_avg cfg) alloc_ok)
                  (io_yajl io, (vtmp, last_poll_data w)) parsed of
             Inl f \<Rightarrow> Inl f
           | Inr (ret, yajl', (vtmp', lpd')) \<Rightarrow>
               let io' = io\<lparr>io_yajl := yajl'\<rparr>;
                   w' = w\<lparr>last_poll_data := lpd'\<rparr>
               in if ret \<noteq> 0 then Inr (ret, io', w')
                  else
                    (let (ret, out) =
                           dispatch_all cfg (io_d io) (zip (dset (io_d io)) (vh vtmp'))
                             (dispatched w')
                     in Inr (ret, io', w'\<lparr>dispatched := out\<rparr>)))"

text \<open>
  \<^verbatim>\<open>cconn_process_json\<close>.  A failing \<^verbatim>\<open>yajl_alloc\<close> returns the positive \<^verbatim>\<open>ENOMEM\<close>.
  The reply is the first \<open>json_len\<close> bytes of the buffer.
\<close>

definition cconn_process_json ::
  "config \<Rightarrow> bool \<Rightarrow> world \<Rightarrow> cconn \<Rightarrow> fault + (int \<times> cconn \<times> world)" where
  "cconn_process_json cfg alloc_ok w io =
     (if io_request_type io \<noteq> ASOK_REQ_DATA \<and> io_request_type io \<noteq> ASOK_REQ_SCHEMA
         \<and> io_request_type io \<noteq> ASOK_REQ_FSID
      then Inr (- errno_of EDOM, io, w)
      else if \<not> alloc_ok then Inr (errno_of ENOMEM, io, w)
      else
        let io = io\<lparr>io_yajl := (io_yajl io)\<lparr>depth := 0\<rparr>\<rparr>;
            parsed = yajl_parse cfg (take (unat (io_json_len io)) (case io_json io of None \<Rightarrow> [] | Some b \<Rightarrow> b));
            res =
              (if io_request_type io = ASOK_REQ_DATA
               then cconn_process_data cfg alloc_ok w io parsed
               else if io_request_type io = ASOK_REQ_SCHEMA
               then
                 (case traverse_json cfg
                         (node_handler_define_schema (DATA_MAX_NAME_LEN cfg)
                            (cfg_convert_special_metrics cfg) alloc_ok)
                         (io_yajl io, io_d io) parsed of
                    Inl f \<Rightarrow> Inl f
                  | Inr (ret, yajl', dm) \<Rightarrow> Inr (ret, io\<lparr>io_yajl := yajl', io_d := dm\<rparr>, w))
               else
                 (case traverse_json cfg node_handler_parse_fsid (io_yajl io, io_d io) parsed of
                    Inl f \<Rightarrow> Inl f
                  | Inr (ret, yajl', dm) \<Rightarrow> Inr (ret, io\<lparr>io_yajl := yajl', io_d := dm\<rparr>, w)))
        in case res of
             Inl f \<Rightarrow> Inl f
           | Inr (result, io', w') \<Rightarrow>
               if result \<noteq> 0 then Inr (result, io', w')
               else if snd parsed \<noteq> LexComplete then Inr (1, io', w')
               else Inr (result, io', w'))"

text \<open>Poll events (the Linux values of \<^verbatim>\<open>POLLIN\<close>, \<^verbatim>\<open>POLLOUT\<close>, \<^verbatim>\<open>POLLERR\<close>).\<close>

definition POLLIN :: "16 word" where "POLLIN = 1"
definition POLLOUT :: "16 word" where "POLLOUT = 4"
definition POLLERR :: "16 word" where "POLLERR = 8"

definition cconn_validate_revents :: "cconn \<Rightarrow> 16 word \<Rightarrow> int" where
  "cconn_validate_revents io revents =
     (if revents AND POLLERR \<noteq> 0 then - errno_of EIO
      else
        case io_state io of
          CSTATE_WRITE_REQUEST \<Rightarrow> (if revents AND POLLOUT \<noteq> 0 then 0 else - errno_of EINVAL)
        | CSTATE_READ_VERSION \<Rightarrow> (if revents AND POLLIN \<noteq> 0 then 0 else - errno_of EINVAL)
        | CSTATE_READ_AMT \<Rightarrow> (if revents AND POLLIN \<noteq> 0 then 0 else - errno_of EINVAL)
        | CSTATE_READ_JSON \<Rightarrow> (if revents AND POLLIN \<noteq> 0 then 0 else - errno_of EINVAL)
        | CSTATE_UNCONNECTED \<Rightarrow> - errno_of EDOM)"

text \<open>The request text of the state \<^verbatim>\<open>CSTATE_WRITE_REQUEST\<close>, in \<^verbatim>\<open>char cmd[64]\<close>.\<close>

definition print_d :: "int \<Rightarrow> string" where
  "print_d i = (if i < 0 then CHR ''-'' # digits10 (nat (- i)) else digits10 (nat i))"

definition request_cmd :: "32 word \<Rightarrow> string" where
  "request_cmd rt =
     take 63
       (''{ \"prefix\": \"''
        @ (if rt = ASOK_REQ_FSID then ''config get\",\"var\": \"fsid'' else print_d (sint rt))
        @ ''\" }'' @ [CHR 0x0A])"

text \<open>
  \<^verbatim>\<open>cconn_handle_event\<close>: one \<^verbatim>\<open>read\<close> or \<^verbatim>\<open>write\<close> with the result \<open>r\<close>.  The
  return code comes with the connection as the call leaves it, also when it is an
  error.  \<open>io_amt\<close> is a \<^verbatim>\<open>uint32_t\<close>.
\<close>

definition cconn_handle_event ::
  "config \<Rightarrow> bool \<Rightarrow> io_res \<Rightarrow> world \<Rightarrow> cconn \<Rightarrow> fault + (int \<times> cconn \<times> world)" where
  "cconn_handle_event cfg alloc_ok r w io =
     (case io_state io of
        CSTATE_UNCONNECTED \<Rightarrow> Inr (- errno_of EDOM, io, w)
      | CSTATE_WRITE_REQUEST \<Rightarrow>
          let cmd_len = length (request_cmd (io_request_type io));
              ret = io_ret r
          in if ret < 0 then Inr (ret, io, w)
             else
               (let io = io\<lparr>io_amt := io_amt io + word_of_int ret\<rparr>
                in if unat (io_amt io) \<ge> cmd_len
                   then Inr (0, io\<lparr>io_amt := 0,
                                    io_state := (if io_request_type io = ASOK_REQ_VERSION
                                                 then CSTATE_READ_VERSION
                                                 else CSTATE_READ_AMT)\<rparr>, w)
                   else Inr (0, io, w))
      | CSTATE_READ_VERSION \<Rightarrow>
          let ret = io_ret r
          in if ret < 0 then Inr (ret, io, w)
             else
               (case store_bytes (io_word io) (unat (io_amt io)) (take (nat ret) (io_data r)) of
                  Inl f \<Rightarrow> Inl f
                | Inr bytes \<Rightarrow>
                    let io = io\<lparr>io_word := bytes, io_amt := io_amt io + word_of_int ret\<rparr>
                    in if unat (io_amt io) \<ge> 4
                       then
                         (let io = io\<lparr>io_d := (io_d io)\<lparr>version := ntohl_bytes (io_word io)\<rparr>\<rparr>
                          in if version (io_d io) \<noteq> 1 then Inr (- errno_of ENOTSUP, io, w)
                             else
                               (let (io, w) = cconn_close (io\<lparr>io_amt := 0\<rparr>) w
                                in Inr (0, io\<lparr>io_request_type := ASOK_REQ_FSID\<rparr>, w)))
                       else Inr (0, io, w))
      | CSTATE_READ_AMT \<Rightarrow>
          let ret = io_ret r
          in if ret < 0 then Inr (ret, io, w)
             else
               (case store_bytes (io_word io) (unat (io_amt io)) (take (nat ret) (io_data r)) of
                  Inl f \<Rightarrow> Inl f
                | Inr bytes \<Rightarrow>
                    let io = io\<lparr>io_word := bytes, io_amt := io_amt io + word_of_int ret\<rparr>
                    in if unat (io_amt io) \<ge> 4
                       then
                         (let io = io\<lparr>io_json_len := ntohl_bytes (io_word io), io_amt := 0,
                                       io_state := CSTATE_READ_JSON\<rparr>
                          in if \<not> alloc_ok then Inr (- errno_of ENOMEM, io, w)
                             else Inr (0, io\<lparr>io_json :=
                                              Some (replicate (unat (io_json_len io + 1)) 0)\<rparr>, w))
                       else Inr (0, io, w))
      | CSTATE_READ_JSON \<Rightarrow>
          let ret = io_ret r
          in if ret < 0 then Inr (ret, io, w)
             else
               (case store_bytes (case io_json io of None \<Rightarrow> [] | Some b \<Rightarrow> b)
                       (unat (io_amt io)) (take (nat ret) (io_data r)) of
                  Inl f \<Rightarrow> Inl f
                | Inr bytes \<Rightarrow>
                    let io = io\<lparr>io_json := Some bytes, io_amt := io_amt io + word_of_int ret\<rparr>
                    in if io_amt io \<ge> io_json_len io
                       then
                         (case cconn_process_json cfg alloc_ok w io of
                            Inl f \<Rightarrow> Inl f
                          | Inr (ret, io, w) \<Rightarrow>
                              if ret \<noteq> 0 then Inr (ret, io, w)
                              else
                                (let rt = io_request_type io;
                                     (io, w) = cconn_close io w
                                 in if rt = ASOK_REQ_FSID
                                    then Inr (0, io\<lparr>io_amt := 0,
                                                     io_request_type := ASOK_REQ_SCHEMA\<rparr>, w)
                                    else Inr (0, io\<lparr>io_request_type := ASOK_REQ_NONE\<rparr>, w)))
                       else Inr (0, io, w)))"

section \<open>Multiplexing event loop\<close>

text \<open>
  \<^verbatim>\<open>cconn_prepare\<close>: the return code, the connection, the descriptor with the events
  to poll for when the code is 1, and the world.  \<open>res\<close> holds the results of the system
  calls of \<^verbatim>\<open>cconn_connect\<close>, used when the connection is unconnected.
\<close>

definition cconn_prepare ::
  "connect_res \<Rightarrow> cconn \<Rightarrow> world \<Rightarrow> int \<times> cconn \<times> (int \<times> 16 word) option \<times> world" where
  "cconn_prepare res io w =
     (if io_request_type io = ASOK_REQ_NONE then (0, io, None, w)
      else if io_request_type io = ASOK_REQ_DATA \<and> length (dset (io_d io)) = 0
      then (0, io, None, w)
      else
        case io_state io of
          CSTATE_UNCONNECTED \<Rightarrow>
            (let (ret, io', w') = cconn_connect res io w
             in if ret > 0 then (- ret, io', None, w')
                else if ret < 0 then (ret, io', None, w')
                else (1, io', Some (io_asok io', POLLOUT), w'))
        | CSTATE_WRITE_REQUEST \<Rightarrow> (1, io, Some (io_asok io, POLLOUT), w)
        | CSTATE_READ_VERSION \<Rightarrow> (1, io, Some (io_asok io, POLLIN), w)
        | CSTATE_READ_AMT \<Rightarrow> (1, io, Some (io_asok io, POLLIN), w)
        | CSTATE_READ_JSON \<Rightarrow> (1, io, Some (io_asok io, POLLIN), w))"

text \<open>
  \<^verbatim>\<open>struct timeval\<close> and \<^verbatim>\<open>milli_diff\<close>.  The fields of a \<^verbatim>\<open>timeval\<close> are the values
  of the clock.  \<open>sec_diff\<close> and \<open>usec_diff\<close> are of type \<^verbatim>\<open>int\<close>: the differences are
  converted to 32 bits, and the product \<open>sec_diff * 1000\<close> is computed in 32 bits, where
  it wraps around, before it is added to the 64-bit \<open>ret\<close>.  So \<open>ret\<close> is always within
  the range of \<^verbatim>\<open>int\<close> and the two comparisons with \<^verbatim>\<open>INT_MAX\<close> and \<^verbatim>\<open>INT_MIN\<close> never
  apply.  The division of \<open>usec_diff\<close> truncates towards zero, as in C.
\<close>

record timeval =
  tv_sec :: int
  tv_usec :: int

definition c_div :: "int \<Rightarrow> int \<Rightarrow> int" where
  "c_div a b = (if (a < 0) = (b < 0) then \<bar>a\<bar> div \<bar>b\<bar> else - (\<bar>a\<bar> div \<bar>b\<bar>))"

definition INT_MAX :: int where "INT_MAX = 2147483647"
definition INT_MIN :: int where "INT_MIN = - 2147483648"

definition milli_diff :: "timeval \<Rightarrow> timeval \<Rightarrow> int" where
  "milli_diff t1 t2 =
     (let sec_diff = (word_of_int (tv_sec t1 - tv_sec t2) :: 32 word);
          usec_diff = (word_of_int (tv_usec t1 - tv_usec t2) :: 32 word);
          ret = c_div (sint usec_diff) 1000;
          ret = ret + sint (sec_diff * 1000)
      in if ret > INT_MAX then INT_MAX else if ret < INT_MIN then INT_MIN else ret)"

definition CEPH_TIMEOUT_INTERVAL :: int where
  "CEPH_TIMEOUT_INTERVAL = 1"

text \<open>
  What the system hands to one iteration of the loop: for the daemon with index \<open>i\<close>
  the results of connecting; the time read by \<^verbatim>\<open>gettimeofday\<close>; the return value of
  \<^verbatim>\<open>poll\<close> (after \<^verbatim>\<open>RETRY_ON_EINTR\<close>); and for the \<open>k\<close>-th polled descriptor its
  \<open>revents\<close>, the result of its \<^verbatim>\<open>read\<close> or \<^verbatim>\<open>write\<close>, and whether allocations made
  while handling it succeed.
\<close>

record iter_in =
  it_connect :: "nat \<Rightarrow> connect_res"
  it_now :: timeval
  it_poll :: int
  it_revents :: "nat \<Rightarrow> 16 word"
  it_io :: "nat \<Rightarrow> io_res"
  it_alloc :: "nat \<Rightarrow> bool"

text \<open>
  The first \<^verbatim>\<open>for\<close> loop of an iteration, from the daemon with index \<open>i\<close> on: the
  connections after \<^verbatim>\<open>cconn_prepare\<close>, the indices of those to poll
  (\<open>polled_io_array\<close>), whether one was found unreachable, and the world.
\<close>

fun prepare_loop ::
  "(nat \<Rightarrow> connect_res) \<Rightarrow> nat \<Rightarrow> cconn list \<Rightarrow> world
    \<Rightarrow> cconn list \<times> nat list \<times> bool \<times> world" where
  "prepare_loop conn i [] w = ([], [], False, w)"
| "prepare_loop conn i (io # ios) w =
     (let (ret, io', fd, w0) = cconn_prepare (conn i) io w
      in if ret < 0
         then
           (let (io'', w1) = cconn_close io' w0;
                (ios', polled, unreachable, w2) = prepare_loop conn (Suc i) ios w1
            in (io''\<lparr>io_request_type := ASOK_REQ_NONE\<rparr> # ios', polled, True, w2))
         else
           (let (ios', polled, unreachable, w2) = prepare_loop conn (Suc i) ios w0
            in if ret = 1 then (io' # ios', i # polled, unreachable, w2)
               else (io' # ios', polled, unreachable, w2)))"

text \<open>
  The second \<^verbatim>\<open>for\<close> loop, over the polled connections from position \<open>k\<close> on.  The
  state is the world, the array of connections and \<open>some_unreachable\<close>.
\<close>

fun events_loop ::
  "config \<Rightarrow> iter_in \<Rightarrow> nat \<Rightarrow> nat list \<Rightarrow> world \<times> cconn list \<times> bool
    \<Rightarrow> fault + (world \<times> cconn list \<times> bool)" where
  "events_loop cfg it k [] s = Inr s"
| "events_loop cfg it k (i # is) s =
     (let (w, ios, unreachable) = s;
          io = ios ! i;
          revents = it_revents it k
      in if revents = 0 then events_loop cfg it (Suc k) is s
         else if cconn_validate_revents io revents \<noteq> 0
         then
           (let (io', w') = cconn_close io w
            in events_loop cfg it (Suc k) is
                 (w', ios[i := io'\<lparr>io_request_type := ASOK_REQ_NONE\<rparr>], True))
         else
           (case cconn_handle_event cfg (it_alloc it k) (it_io it k) w io of
              Inl f \<Rightarrow> Inl f
            | Inr (ret, io', w') \<Rightarrow>
                if ret \<noteq> 0
                then
                  (let (io'', w'') = cconn_close io' w'
                   in events_loop cfg it (Suc k) is
                        (w'', ios[i := io''\<lparr>io_request_type := ASOK_REQ_NONE\<rparr>], True))
                else events_loop cfg it (Suc k) is (w', ios[i := io'], unreachable)))"

text \<open>
  The \<^verbatim>\<open>while (1)\<close> loop, one iteration per element of the input; \<open>None\<close> when the
  input ends while the loop is still running.  The result is the value of \<open>ret\<close> at the
  label \<^verbatim>\<open>done\<close> with the state reached there.
\<close>

fun main_loop ::
  "config \<Rightarrow> timeval \<Rightarrow> iter_in list \<Rightarrow> world \<times> cconn list \<times> bool
    \<Rightarrow> (fault + (int \<times> world \<times> cconn list \<times> bool)) option" where
  "main_loop cfg end_tv [] s = None"
| "main_loop cfg end_tv (it # its) s =
     (let (w0, ios, unreachable) = s;
          (ios1, polled, unreachable1, w) = prepare_loop (it_connect it) 0 ios w0;
          unreachable = (unreachable \<or> unreachable1)
      in if polled = [] then Some (Inr (0, w, ios1, unreachable))
         else if milli_diff end_tv (it_now it) \<le> 0
         then Some (Inr (- errno_of ETIMEDOUT, w, ios1, unreachable))
         else if it_poll it < 0 then Some (Inr (it_poll it, w, ios1, unreachable))
         else
           (case events_loop cfg it 0 polled (w, ios1, unreachable) of
              Inl f \<Rightarrow> Some (Inl f)
            | Inr s' \<Rightarrow> main_loop cfg end_tv its s'))"

text \<open>
  \<^verbatim>\<open>cconn_main_loop (request_type)\<close> on the daemons \<open>g_daemons\<close>.  \<open>start\<close> is the time
  read before the loop.  The array \<open>io_array\<close> starts as \<^verbatim>\<open>memset\<close> leaves it (the
  descriptor is 0) with the daemon, the request type and the state set.  After the label
  \<^verbatim>\<open>done\<close> every connection goes through \<^verbatim>\<open>cconn_close\<close> (\<open>close_all\<close>); the result
  carries the return value, the world, the daemons, and the connections as the function
  leaves them.
\<close>

definition cconn_init :: "config \<Rightarrow> 32 word \<Rightarrow> ceph_daemon \<Rightarrow> cconn" where
  "cconn_init cfg request_type dm =
     \<lparr>io_d = dm, io_request_type = request_type, io_state = CSTATE_UNCONNECTED,
      io_asok = 0, io_amt = 0, io_json_len = 0, io_json = None,
      io_yajl = yajl_init (YAJL_MAX_DEPTH cfg), io_word = [0, 0, 0, 0]\<rparr>"

fun close_all :: "cconn list \<Rightarrow> world \<Rightarrow> cconn list \<times> world" where
  "close_all [] w = ([], w)"
| "close_all (io # ios) w =
     (let (io', w1) = cconn_close io w;
          (ios', w2) = close_all ios w1
      in (io' # ios', w2))"

definition cconn_main_loop ::
  "config \<Rightarrow> 32 word \<Rightarrow> timeval \<Rightarrow> iter_in list \<Rightarrow> world \<Rightarrow> ceph_daemon list
    \<Rightarrow> (fault + (int \<times> world \<times> ceph_daemon list \<times> cconn list)) option" where
  "cconn_main_loop cfg request_type start its w g_daemons =
     (let io_array = map (cconn_init cfg request_type) g_daemons;
          end_tv = start\<lparr>tv_sec := tv_sec start + CEPH_TIMEOUT_INTERVAL\<rparr>
      in case main_loop cfg end_tv its (w, io_array, False) of
           None \<Rightarrow> None
         | Some (Inl f) \<Rightarrow> Some (Inl f)
         | Some (Inr (ret, w1, ios, unreachable)) \<Rightarrow>
             (let (ios', w') = close_all ios w1
              in Some (Inr (ret, w', map io_d ios', ios'))))"

text \<open>
  A connection is inactive when \<^verbatim>\<open>cconn_prepare\<close> has nothing to register for it: its
  request was serviced, or it is a data request for a daemon without counters.
\<close>

definition inactive :: "cconn \<Rightarrow> bool" where
  "inactive io =
     (io_request_type io = ASOK_REQ_NONE
      \<or> (io_request_type io = ASOK_REQ_DATA \<and> length (dset (io_d io)) = 0))"

text \<open>
  A configuration for concrete runs: the usual sizes, both options at their defaults,
  a sink that accepts every value list, and a parser that finds every reply empty.
\<close>

definition cfg0 :: config where
  "cfg0 = \<lparr>DATA_MAX_NAME_LEN = 64, YAJL_MAX_DEPTH = 128,
           cfg_long_run_latency_avg = False, cfg_convert_special_metrics = True,
           hostname_g = ''localhost'', plugin_dispatch_values = (\<lambda>vl. 0),
           yajl_parse = (\<lambda>bytes. ([], LexIncomplete))\<rparr>"

text \<open>
  Inputs for concrete runs.  \<open>it_refused\<close>: \<^verbatim>\<open>socket\<close> returns the descriptor 5 and
  \<^verbatim>\<open>connect\<close> fails with \<^verbatim>\<open>ECONNREFUSED\<close> (111), as for a daemon that is down.
  \<open>it_late_refused\<close>: the first daemon is connected with the descriptor 5, for every
  other one \<^verbatim>\<open>socket\<close> returns 6 and \<^verbatim>\<open>connect\<close> is refused, and the clock has reached
  second 101.  \<open>it_poll_refused\<close>: the same connections, the clock still at second 100,
  and \<^verbatim>\<open>poll\<close> fails with \<^verbatim>\<open>ENOMEM\<close> (12).  \<open>world0\<close> is the empty world and \<open>osd1\<close> a
  second daemon.
\<close>

definition it_refused :: iter_in where
  "it_refused = \<lparr>it_connect = (\<lambda>i. \<lparr>socket_ret = 5, connect_ret = - 111, fcntl_ret = 0\<rparr>),
                 it_now = \<lparr>tv_sec = 100, tv_usec = 0\<rparr>, it_poll = 0,
                 it_revents = (\<lambda>k. 0), it_io = (\<lambda>k. \<lparr>io_ret = 0, io_data = []\<rparr>),
                 it_alloc = (\<lambda>k. True)\<rparr>"

definition it_late_refused :: iter_in where
  "it_late_refused =
     \<lparr>it_connect = (\<lambda>i. if i = 0 then \<lparr>socket_ret = 5, connect_ret = 0, fcntl_ret = 0\<rparr>
                          else \<lparr>socket_ret = 6, connect_ret = - 111, fcntl_ret = 0\<rparr>),
      it_now = \<lparr>tv_sec = 101, tv_usec = 0\<rparr>, it_poll = 0,
      it_revents = (\<lambda>k. 0), it_io = (\<lambda>k. \<lparr>io_ret = 0, io_data = []\<rparr>),
      it_alloc = (\<lambda>k. True)\<rparr>"

definition it_poll_refused :: iter_in where
  "it_poll_refused = it_late_refused\<lparr>it_now := \<lparr>tv_sec = 100, tv_usec = 0\<rparr>, it_poll := - 12\<rparr>"

definition world0 :: world where
  "world0 = \<lparr>last_poll_data = [], dispatched = [], opened_fds = [], closed_fds = []\<rparr>"

definition osd1 :: ceph_daemon where
  "osd1 = osd0\<lparr>daemon_name := ''osd.1''\<rparr>"
section \<open>Properties of the rate engine\<close>

lemma update_match_None: "find_last lpd dset_n ds_n = None \<Longrightarrow> update_match lpd dset_n ds_n s c = None"
  by (induction lpd) (auto split: if_splits)

lemma update_match_Some:
  "find_last lpd dset_n ds_n = Some e \<Longrightarrow>
   \<exists>lpd'. update_match lpd dset_n ds_n s c = Some lpd' \<and>
     find_last lpd' dset_n ds_n = Some (e\<lparr>last_sum := s, last_count := c\<rparr>)"
  by (induction lpd) (auto split: if_splits)

lemma find_last_append:
  "find_last lpd dset_n ds_n = None \<Longrightarrow>
   find_last (lpd @ [x]) dset_n ds_n = (if dset_name x = dset_n \<and> ds_name x = ds_n then Some x else None)"
  by (induction lpd) (auto split: if_splits)

lemma get_last_avg_found:
  assumes "find_last lpd dset_n ds_n = Some e"
  shows "fst (get_last_avg N al lpd dset_n ds_n s c) =
          (if c < last_count e then NaN
           else let r = ddiv (dsub s (last_sum e)) (double_of_u64 (c - last_count e))
                in if deq r no_result then NaN else r)"
    and "find_last (snd (get_last_avg N al lpd dset_n ds_n s c)) dset_n ds_n =
          Some (e\<lparr>last_sum := s, last_count := c\<rparr>)"
proof -
  obtain lpd' where u: "update_match lpd dset_n ds_n s c = Some lpd'"
    and f: "find_last lpd' dset_n ds_n = Some (e\<lparr>last_sum := s, last_count := c\<rparr>)"
    using update_match_Some [OF assms] by blast
  show "fst (get_last_avg N al lpd dset_n ds_n s c) =
          (if c < last_count e then NaN
           else let r = ddiv (dsub s (last_sum e)) (double_of_u64 (c - last_count e))
                in if deq r no_result then NaN else r)"
    using assms u by (simp add: get_last_avg_def update_last_def Let_def no_result_def)
  show "find_last (snd (get_last_avg N al lpd dset_n ds_n s c)) dset_n ds_n =
          Some (e\<lparr>last_sum := s, last_count := c\<rparr>)"
    using assms u f by (simp add: get_last_avg_def update_last_def Let_def)
qed

lemma get_last_avg_first:
  assumes "find_last lpd dset_n ds_n = None"
  shows "get_last_avg N True lpd dset_n ds_n s c =
          (NaN, lpd @ [\<lparr>dset_name = sstrncpy dset_n N, ds_name = sstrncpy ds_n MAX_RRD_DS_NAME_LEN,
                        last_sum = s, last_count = c\<rparr>])"
  using assms update_match_None [OF assms]
  by (simp add: get_last_avg_def update_last_def add_last_def Let_def no_result_def)

lemma get_last_avg_stores:
  assumes "length dset_n < N" "length ds_n < MAX_RRD_DS_NAME_LEN"
  shows "\<exists>e. find_last (snd (get_last_avg N True lpd dset_n ds_n s c)) dset_n ds_n = Some e
            \<and> last_sum e = s \<and> last_count e = c"
proof (cases "find_last lpd dset_n ds_n")
  case None
  then show ?thesis using assms
    by (simp add: get_last_avg_first find_last_append sstrncpy_def)
next
  case (Some e)
  then show ?thesis using get_last_avg_found(2) [OF Some] by simp
qed


text \<open>
  Claim C1.  In interval mode, a latency key observed as (sum 10.0, count 5) and then
  (sum 30.0, count 15) is reported as 2.0 on the second poll.  Whenever the current
  cumulative count is strictly below the stored one, the report is NaN and the stored
  baseline still moves to the new (sum, count); so after (30.0, 15) and a regression to
  (5.0, 3), the observation (25.0, 10) is reported as 20/7.
\<close>

theorem C1_interval_rate:
  assumes "length dset_n < N" and "length ds_n < MAX_RRD_DS_NAME_LEN"
    and "find_last lpd' dset_n ds_n = Some e" and "cur_count < last_count e"
  shows "tl (fst (poll_seq N lpd dset_n ds_n [(Fin 10, 5), (Fin 30, 15)])) = [Fin 2]
       \<and> fst (get_last_avg N al lpd' dset_n ds_n cur_sum cur_count) = NaN
       \<and> find_last (snd (get_last_avg N al lpd' dset_n ds_n cur_sum cur_count)) dset_n ds_n
           = Some (e\<lparr>last_sum := cur_sum, last_count := cur_count\<rparr>)
       \<and> tl (fst (poll_seq N lpd dset_n ds_n [(Fin 30, 15), (Fin 5, 3), (Fin 25, 10)]))
           = [NaN, Fin (20 / 7)]"
proof -
  let ?g = "\<lambda>l s c. get_last_avg N True l dset_n ds_n s c"
  have two: "fst (?g (snd (?g l (Fin a) ca)) (Fin b) cb) =
               (if cb < ca then NaN
                else let r = ddiv (Fin (b - a)) (double_of_u64 (cb - ca))
                     in if deq r no_result then NaN else r)" for l a b ca cb
  proof -
    obtain e1 where "find_last (snd (?g l (Fin a) ca)) dset_n ds_n = Some e1"
      and "last_sum e1 = Fin a" and "last_count e1 = ca"
      using get_last_avg_stores [OF assms(1,2)] by blast
    then show ?thesis
      using get_last_avg_found(1) [of "snd (?g l (Fin a) ca)" dset_n ds_n e1 N True "Fin b" cb]
      by (simp add: dsub_def)
  qed
  have p1: "tl (fst (poll_seq N lpd dset_n ds_n [(Fin 10, 5), (Fin 30, 15)])) = [Fin 2]"
    using two [where l = lpd and a = 10 and ca = 5 and b = 30 and cb = 15]
    by (simp add: case_prod_unfold Let_def double_of_u64_def no_result_def)
  have three: "fst (?g (snd (?g (snd (?g lpd (Fin 30) 15)) (Fin 5) 3)) (Fin 25) 10) = Fin (20 / 7)"
    using two [where l = "snd (?g lpd (Fin 30) 15)" and a = 5 and ca = 3 and b = 25 and cb = 10]
    by (simp add: Let_def double_of_u64_def no_result_def)
  have p3: "tl (fst (poll_seq N lpd dset_n ds_n [(Fin 30, 15), (Fin 5, 3), (Fin 25, 10)]))
           = [NaN, Fin (20 / 7)]"
    using two [where l = lpd and a = 30 and ca = 15 and b = 5 and cb = 3] three
    by (simp add: case_prod_unfold Let_def)
  have p2: "fst (get_last_avg N al lpd' dset_n ds_n cur_sum cur_count) = NaN"
    using get_last_avg_found(1) [OF assms(3)] assms(4) by simp
  have p2': "find_last (snd (get_last_avg N al lpd' dset_n ds_n cur_sum cur_count)) dset_n ds_n
           = Some (e\<lparr>last_sum := cur_sum, last_count := cur_count\<rparr>)"
    using get_last_avg_found(2) [OF assms(3)] by simp
  show ?thesis using p1 p2 p2' p3 by simp
qed

theorem C1_interval_rate_witness:
  "length ''osd'' < (64::nat) \<and> length ''OpLatency'' < MAX_RRD_DS_NAME_LEN
   \<and> find_last [\<lparr>dset_name = ''osd'', ds_name = ''OpLatency'', last_sum = Fin 30, last_count = 15\<rparr>]
        ''osd'' ''OpLatency''
       = Some \<lparr>dset_name = ''osd'', ds_name = ''OpLatency'', last_sum = Fin 30, last_count = 15\<rparr>
   \<and> (3 :: 64 word) < 15
   \<and> tl (fst (poll_seq 64 [] ''osd'' ''OpLatency'' [(Fin 10, 5), (Fin 30, 15)])) = [Fin 2]
   \<and> get_last_avg 64 False
        [\<lparr>dset_name = ''osd'', ds_name = ''OpLatency'', last_sum = Fin 30, last_count = 15\<rparr>]
        ''osd'' ''OpLatency'' (Fin 5) 3
       = (NaN, [\<lparr>dset_name = ''osd'', ds_name = ''OpLatency'', last_sum = Fin 5, last_count = 3\<rparr>])
   \<and> tl (fst (poll_seq 64 [] ''osd'' ''OpLatency'' [(Fin 30, 15), (Fin 5, 3), (Fin 25, 10)]))
       = [NaN, Fin (20 / 7)]"
  using C1_interval_rate [where dset_n = "''osd''" and N = 64 and ds_n = "''OpLatency''"
      and lpd' = "[\<lparr>dset_name = ''osd'', ds_name = ''OpLatency'', last_sum = Fin 30, last_count = 15\<rparr>]"
      and e = "\<lparr>dset_name = ''osd'', ds_name = ''OpLatency'', last_sum = Fin 30, last_count = 15\<rparr>"
      and cur_count = 3 and lpd = "[]" and al = False and cur_sum = "Fin 5"]
  by (simp add: MAX_RRD_DS_NAME_LEN_def get_last_avg_def update_last_def no_result_def Let_def)

text \<open>
  Claim C10.  In interval mode, the first observation of a key that has no history
  entry is reported as NaN, and it appends the entry holding the observed sum and
  count (when the allocation fails, nothing is stored and \<^verbatim>\<open>-ENOMEM\<close> comes back
  instead).  A numeric interval average therefore needs a second poll.
\<close>

theorem C10_first_observation:
  assumes "find_last lpd dset_n ds_n = None"
  shows "get_last_avg N alloc_ok lpd dset_n ds_n cur_sum cur_count =
          (if alloc_ok
           then (NaN, lpd @ [\<lparr>dset_name = sstrncpy dset_n N,
                               ds_name = sstrncpy ds_n MAX_RRD_DS_NAME_LEN,
                               last_sum = cur_sum, last_count = cur_count\<rparr>])
           else (double_of_int (- 12), lpd))"
  using assms update_match_None [OF assms]
  by (simp add: get_last_avg_def update_last_def add_last_def Let_def no_result_def)

theorem C10_first_observation_witness:
  "find_last [] ''osd'' ''OpLatency'' = None
   \<and> get_last_avg 64 True [] ''osd'' ''OpLatency'' (Fin 10) 5 =
       (NaN, [\<lparr>dset_name = ''osd'', ds_name = ''OpLatency'', last_sum = Fin 10, last_count = 5\<rparr>])"
  using C10_first_observation [where lpd = "[]" and dset_n = "''osd''" and ds_n = "''OpLatency''"
      and N = 64 and alloc_ok = True and cur_sum = "Fin 10" and cur_count = 5]
  by (simp add: sstrncpy_def MAX_RRD_DS_NAME_LEN_def)

section \<open>Properties of name mangling\<close>

lemma compact_ds_name_cases:
  fixes N :: nat and source :: string
  assumes "source \<noteq> []"
  defines "tmp \<equiv> take (N - 1) (concat (map capitalize (take 16 (strtok_r [] source))))"
  defines "ls \<equiv> take 2 (digits10 (length source))"
  shows "compact_ds_name N source [] =
          (if last source = CHR ''-''
           then (if 19 < length tmp then take 12 tmp @ ''Minus'' @ ls else take 14 tmp @ ''Minus'')
           else if last source = CHR ''+''
           then (if 19 < length tmp then take 13 tmp @ ''Plus'' @ ls else take 15 tmp @ ''Plus'')
           else (if 19 < length tmp then take 17 tmp @ ls else take 19 tmp))"
proof -
  have c: "compact_ds_name N source [] =
     (let src_len = length source;
            len_str = take (3 - 1) (digits10 src_len);
            append_status = (0 :: 8 word);
            append_status = append_status OR (if last source = CHR ''-'' then 1 else 0);
            append_status = append_status OR (if last source = CHR ''+'' then 2 else 0);
            too_long = (length tmp > MAX_RRD_DS_NAME_LEN - 1);
            append_status = (if too_long then append_status OR 4 else append_status);
            reserved = (if too_long then (0::nat) + 2 else 0);
            reserved = (if append_status AND 1 \<noteq> 0 then reserved + 5 else reserved);
            reserved = (if append_status AND 2 \<noteq> 0 then reserved + 4 else reserved);
            dest = take (MAX_RRD_DS_NAME_LEN - reserved - 1) tmp
        in if append_status = 1 then dest @ ''Minus''
           else if append_status = 2 then dest @ ''Plus''
           else if append_status = 4 then dest @ take 2 len_str
           else if append_status = 5 then dest @ ''Minus'' @ take 2 len_str
           else if append_status = 6 then dest @ ''Plus'' @ take 2 len_str
           else dest)"
    using assms(1) unfolding compact_ds_name_def tmp_def Let_def by simp
  consider (m) "last source = CHR ''-''" | (p) "last source = CHR ''+''"
    | (n) "last source \<noteq> CHR ''-''" "last source \<noteq> CHR ''+''" by blast
  then show ?thesis
  proof cases
    case m
    show ?thesis
    proof (cases "19 < length tmp")
      case True
      show ?thesis unfolding c using m True by (simp add: MAX_RRD_DS_NAME_LEN_def ls_def)
    next
      case False
      show ?thesis unfolding c using m False by (simp add: MAX_RRD_DS_NAME_LEN_def ls_def)
    qed
  next
    case p
    show ?thesis
    proof (cases "19 < length tmp")
      case True
      show ?thesis unfolding c using p True by (simp add: MAX_RRD_DS_NAME_LEN_def ls_def)
    next
      case False
      show ?thesis unfolding c using p False by (simp add: MAX_RRD_DS_NAME_LEN_def ls_def)
    qed
  next
    case n
    show ?thesis
    proof (cases "19 < length tmp")
      case True
      show ?thesis unfolding c using n True by (simp add: MAX_RRD_DS_NAME_LEN_def ls_def)
    next
      case False
      show ?thesis unfolding c using n False by (simp add: MAX_RRD_DS_NAME_LEN_def ls_def)
    qed
  qed
qed

lemma compact_ds_name_fits:
  "length (compact_ds_name N source []) < MAX_RRD_DS_NAME_LEN"
proof (cases "source = []")
  case True
  then show ?thesis by (simp add: compact_ds_name_def MAX_RRD_DS_NAME_LEN_def)
next
  case False
  define tmp where "tmp = take (N - 1) (concat (map capitalize (take 16 (strtok_r [] source))))"
  define ls where "ls = take 2 (digits10 (length source))"
  have ls: "length ls \<le> 2" by (simp add: ls_def)
  have tk: "length (take k tmp) \<le> k" for k by simp
  have "length (compact_ds_name N source []) \<le> 19"
    unfolding compact_ds_name_cases [OF False, of N, folded tmp_def ls_def]
    using ls tk [of 12] tk [of 13] tk [of 14] tk [of 15] tk [of 17] tk [of 19]
    by (simp del: length_take split: if_splits)
  then show ?thesis by (simp add: MAX_RRD_DS_NAME_LEN_def)
qed

text \<open>
  Claim C4.  For every input string, the mangled name written by \<^verbatim>\<open>compact_ds_name\<close>
  into a cleared buffer is never longer than the short-name budget of 20: the room
  for the "Minus"/"Plus" marker and for the two-digit length is taken off before the
  camel-cased text is cut.  (It is at most 19 characters, leaving the terminator.)
\<close>

theorem C4_mangled_name_within_budget:
  "length (compact_ds_name N source []) \<le> MAX_RRD_DS_NAME_LEN"
  using compact_ds_name_fits [of N source] by simp

section \<open>Properties of the key-path split\<close>

lemma strchr_first:
  "c \<notin> set a \<Longrightarrow> strchr (a @ c # r) c = Some (length a)"
  by (induction a) auto

lemma strrchr_none: "c \<notin> set l \<Longrightarrow> strrchr l c = None"
  by (induction l) auto

lemma strrchr_last:
  "c \<notin> set l \<Longrightarrow> strrchr (xs @ c # l) c = Some (length xs)"
  by (induction xs) (auto simp: strrchr_none)

lemma join_dots_snoc:
  "mid \<noteq> [] \<Longrightarrow> join_dots (mid @ [l]) = join_dots mid @ CHR ''.'' # l"
  by (induction mid rule: join_dots.induct) auto

lemma join_dots_Cons:
  "rest \<noteq> [] \<Longrightarrow> join_dots (a # rest) = a @ CHR ''.'' # join_dots rest"
  by (cases rest) auto

lemma parse_keys_split_two:
  assumes "CHR ''.'' \<notin> set a" "CHR ''.'' \<notin> set l" "length (a @ CHR ''.'' # l) < N"
  shows "parse_keys_split N (a @ CHR ''.'' # l) =
           (a, if take 4 l = ''type'' then a else l)"
  using assms
  by (auto simp add: parse_keys_split_def strchr_first strrchr_last Let_def)

lemma parse_keys_split_more:
  assumes "CHR ''.'' \<notin> set a" "CHR ''.'' \<notin> set l"
    and "length (a @ CHR ''.'' # m @ CHR ''.'' # l) < N"
  shows "parse_keys_split N (a @ CHR ''.'' # m @ CHR ''.'' # l) =
           (a, if take 4 l = ''type'' then m else m @ CHR ''.'' # l)"
proof -
  have r: "strrchr (a @ CHR ''.'' # m @ CHR ''.'' # l) CHR ''.'' = Some (length a + 1 + length m)"
    using strrchr_last [OF assms(2), of "a @ CHR ''.'' # m"] by simp
  have p: "strchr (a @ CHR ''.'' # m @ CHR ''.'' # l) CHR ''.'' = Some (length a)"
    using strchr_first [OF assms(1)] by simp
  show ?thesis
    using assms(3) unfolding parse_keys_split_def r p
    by (auto simp add: Let_def)
qed

lemma parse_keys_split_segments:
  assumes dotfree: "\<forall>s \<in> set segs. CHR ''.'' \<notin> set s"
    and two: "2 \<le> length segs"
    and len: "length (join_dots segs) < N"
  shows "parse_keys_split N (join_dots segs) =
           (hd segs,
            if take 4 (last segs) = ''type''
            then (if length segs = 2 then hd segs else join_dots (butlast (tl segs)))
            else join_dots (tl segs))"
proof -
  obtain a rest where segs: "segs = a # rest" and rest: "rest \<noteq> []"
  proof (cases segs)
    case Nil
    then show ?thesis using two by simp
  next
    case (Cons a rest)
    then have "rest \<noteq> []" using two by auto
    then show ?thesis using Cons that by blast
  qed
  obtain mid l where rl: "rest = mid @ [l]"
    using rest by (metis rev_exhaust)
  have a: "CHR ''.'' \<notin> set a" and l: "CHR ''.'' \<notin> set l"
    using dotfree segs rl by auto
  show ?thesis
  proof (cases "mid = []")
    case True
    then show ?thesis
      using parse_keys_split_two [OF a l, of N] len segs rl by simp
  next
    case False
    have j: "join_dots segs = a @ CHR ''.'' # join_dots mid @ CHR ''.'' # l"
      using segs rl False by (simp add: join_dots_Cons join_dots_snoc)
    have n2: "length segs \<noteq> 2" using segs rl False by (cases mid) auto
    show ?thesis
      using parse_keys_split_more [OF a l, of "join_dots mid" N] len n2
      unfolding j using segs rl False by (simp add: join_dots_snoc)
  qed
qed

section \<open>The split rule of parse_keys\<close>

text \<open>
  Claim C3, as the code has it.  For a key path of at least two dot-free segments that
  fits the long-name budget, and whose last segment is \<^verbatim>\<open>type\<close> or does not begin with
  \<^verbatim>\<open>type\<close>: the Dataset name is the first segment; the short name is the first segment
  when only a trailing \<^verbatim>\<open>type\<close> follows it, and otherwise the text after the first dot
  with a trailing \<^verbatim>\<open>.type\<close> removed, that is, the remaining segments with their dots
  kept and a last segment other than \<^verbatim>\<open>type\<close> included.  The name stored is that short
  name mangled by \<^verbatim>\<open>compact_ds_name\<close>.  The result is a function of the key path alone,
  so a second run on the same input gives the same output.
\<close>

theorem C3_split_rule:
  assumes "\<forall>s \<in> set segs. CHR ''.'' \<notin> set s"
    and "2 \<le> length segs"
    and "length (join_dots segs) < N"
    and "take 4 (last segs) = ''type'' \<longrightarrow> last segs = ''type''"
  shows "parse_keys_split N (join_dots segs) =
           (hd segs,
            if last segs = ''type''
            then (if length segs = 2 then hd segs else join_dots (butlast (tl segs)))
            else join_dots (tl segs))
       \<and> parse_keys N (join_dots segs) [] [] =
           Some (hd segs,
                 compact_ds_name N
                   (if last segs = ''type''
                    then (if length segs = 2 then hd segs else join_dots (butlast (tl segs)))
                    else join_dots (tl segs)) [])"
proof -
  have t: "(take 4 (last segs) = ''type'') = (last segs = ''type'')"
    using assms(4) by auto
  have s: "parse_keys_split N (join_dots segs) =
           (hd segs,
            if last segs = ''type''
            then (if length segs = 2 then hd segs else join_dots (butlast (tl segs)))
            else join_dots (tl segs))"
    using parse_keys_split_segments [OF assms(1,2,3)] unfolding t .
  have ne: "join_dots segs \<noteq> []"
  proof (cases segs)
    case Nil
    then show ?thesis using assms(2) by simp
  next
    case (Cons a rest)
    then have "rest \<noteq> []" using assms(2) by auto
    then show ?thesis using Cons by (simp add: join_dots_Cons)
  qed
  show ?thesis using s ne by (simp add: parse_keys_def)
qed

text \<open>
  The rule at the key path \<^verbatim>\<open>filestore.journal_wr_bytes.type\<close>.
\<close>

theorem C3_split_rule_witness:
  "parse_keys_split 64 ''filestore.journal_wr_bytes.type'' = (''filestore'', ''journal_wr_bytes'')
   \<and> parse_keys 64 ''filestore.journal_wr_bytes.type'' [] [] = Some (''filestore'', ''JournalWrBytes'')"
proof -
  have c: "compact_ds_name 64 ''journal_wr_bytes'' [] = ''JournalWrBytes''" by code_simp
  show ?thesis
    using C3_split_rule [of "[''filestore'', ''journal_wr_bytes'', ''type'']" 64] c
    by simp
qed

text \<open>
  Claim C3 as stated fails at the key path \<^verbatim>\<open>a.b.c\<close>: the interior segments concatenated
  give \<^verbatim>\<open>b\<close>, the code gives \<^verbatim>\<open>b.c\<close> (neither \<^verbatim>\<open>b\<close> nor \<^verbatim>\<open>bc\<close>), mangled to \<^verbatim>\<open>B.c\<close>.
\<close>

theorem C3_counterexample:
  "snd (parse_keys_split 64 (join_dots [''a'', ''b'', ''c''])) = ''b.c''
   \<and> spec_short_name [''a'', ''b'', ''c''] = ''b''
   \<and> snd (parse_keys_split 64 (join_dots [''a'', ''b'', ''c'']))
        \<noteq> spec_short_name [''a'', ''b'', ''c'']
   \<and> snd (parse_keys_split 64 (join_dots [''a'', ''b'', ''c''])) \<noteq> concat [''b'', ''c'']
   \<and> parse_keys 64 (join_dots [''a'', ''b'', ''c'']) [] [] = Some (''a'', ''B.c'')"
  by code_simp

section \<open>Classification of counters\<close>

lemma get_matching_dset_from_bound:
  "get_matching_dset_from ss name k = Some i \<Longrightarrow> k \<le> i \<and> i < k + length ss"
  by (induction ss arbitrary: k) (fastforce split: if_splits)+

lemma get_matching_dset_bound:
  "get_matching_dset d name = Some i \<Longrightarrow> i < length (dset d)"
  using get_matching_dset_from_bound [of "dset d" name 0 i]
  by (simp add: get_matching_dset_def)

lemma add_ds_entry_new:
  assumes "length name < N" "parse_keys N name [] [] = Some (dset_n, ds_n)"
  shows "ceph_daemon_add_ds_entry N csm True d name pc_type =
    (let eff = (if csm \<and> dset_n = ''filestore'' \<and> ds_n = ''JournalWrBytes'' then 10 else pc_type);
         new_ds = \<lparr>dsrc_name = take 19 ds_n,
                   dsrc_type = (if eff AND 8 \<noteq> 0 then DS_TYPE_DERIVE else DS_TYPE_GAUGE),
                   dsrc_min = (if eff AND 8 \<noteq> 0 then Fin 0 else NaN),
                   dsrc_max = NaN\<rparr>
     in case get_matching_dset d dset_n of
          None \<Rightarrow> (0, d\<lparr>dset := dset d @ [\<lparr>dset_type = take (N - 1) dset_n, ds = [new_ds]\<rparr>],
                        pc_types := pc_types d @ [[eff]]\<rparr>)
        | Some i \<Rightarrow> (0, d\<lparr>dset := (dset d)[i := (dset d ! i)\<lparr>ds := ds (dset d ! i) @ [new_ds]\<rparr>],
                          pc_types := (pc_types d)[i := pc_types d ! i @ [eff]]\<rparr>))"
  using assms
  by (simp add: ceph_daemon_add_ds_entry_def Let_def MAX_RRD_DS_NAME_LEN_def PERFCOUNTER_DERIVE_def
      split: option.splits)

lemma add_ds_entry_ok_iff:
  "fst (ceph_daemon_add_ds_entry N csm alloc_ok d name pc_type) = 0 \<longleftrightarrow>
     length name < N \<and> parse_keys N name [] [] \<noteq> None \<and> alloc_ok"
  by (auto simp add: ceph_daemon_add_ds_entry_def Let_def split: option.splits)

lemma add_ds_entry_registered:
  assumes ok: "ceph_daemon_add_ds_entry N csm alloc_ok d name pc_type = (0, d')"
    and pk: "parse_keys N name [] [] = Some (dset_n, ds_n)"
    and inv: "length (pc_types d) = length (dset d)"
  shows "let eff = (if csm \<and> dset_n = ''filestore'' \<and> ds_n = ''JournalWrBytes'' then 10 else pc_type);
             i = (case get_matching_dset d dset_n of Some i \<Rightarrow> i | None \<Rightarrow> length (dset d))
         in i < length (dset d')
          \<and> last (ds (dset d' ! i)) =
              \<lparr>dsrc_name = take 19 ds_n,
               dsrc_type = (if eff AND 8 \<noteq> 0 then DS_TYPE_DERIVE else DS_TYPE_GAUGE),
               dsrc_min = (if eff AND 8 \<noteq> 0 then Fin 0 else NaN),
               dsrc_max = NaN\<rparr>
          \<and> last (pc_types d' ! i) = eff
          \<and> pc_kind eff =
              (if eff AND 4 \<noteq> 0 then LatencyPair else if eff AND 8 \<noteq> 0 then Derive else Gauge)"
proof -
  have "fst (ceph_daemon_add_ds_entry N csm alloc_ok d name pc_type) = 0" using ok by simp
  then have n: "length name < N" and a: "alloc_ok" using add_ds_entry_ok_iff by blast+
  have k: "pc_kind e = (if e AND 4 \<noteq> 0 then LatencyPair else if e AND 8 \<noteq> 0 then Derive else Gauge)" for e
    by (simp add: pc_kind_def PERFCOUNTER_LATENCY_def PERFCOUNTER_DERIVE_def)
  have ok': "ceph_daemon_add_ds_entry N csm True d name pc_type = (0, d')"
    using ok a by simp
  show ?thesis
  proof (cases "get_matching_dset d dset_n")
    case None
    then show ?thesis
      using ok' inv k unfolding add_ds_entry_new [OF n pk, of csm d pc_type]
      by (auto simp add: Let_def nth_append)
  next
    case (Some i)
    then have "i < length (dset d)" by (rule get_matching_dset_bound)
    then show ?thesis
      using ok' inv k Some unfolding add_ds_entry_new [OF n pk, of csm d pc_type]
      by (auto simp add: Let_def)
  qed
qed

lemma journal_keys: "parse_keys 64 ''filestore.journal_wr_bytes.type'' [] [] = Some (''filestore'', ''JournalWrBytes'')"
  by code_simp

lemma latency_keys: "parse_keys 64 ''osd.op_latency.type'' [] [] = Some (''osd'', ''OpLatency'')"
  by code_simp

lemma add_journal:
  "ceph_daemon_add_ds_entry 64 True True osd0 ''filestore.journal_wr_bytes.type'' 5 =
     (0, osd0\<lparr>dset := [\<lparr>dset_type = ''filestore'',
                        ds = [\<lparr>dsrc_name = ''JournalWrBytes'', dsrc_type = DS_TYPE_DERIVE,
                               dsrc_min = Fin 0, dsrc_max = NaN\<rparr>]\<rparr>],
              pc_types := [[10]]\<rparr>)"
  unfolding add_ds_entry_new [of "''filestore.journal_wr_bytes.type''" 64, OF _ journal_keys, simplified]
  by (simp add: osd0_def get_matching_dset_def)

lemma add_latency:
  "ceph_daemon_add_ds_entry 64 True True osd0 ''osd.op_latency.type'' 5 =
     (0, osd0\<lparr>dset := [\<lparr>dset_type = ''osd'',
                        ds = [\<lparr>dsrc_name = ''OpLatency'', dsrc_type = DS_TYPE_GAUGE,
                               dsrc_min = NaN, dsrc_max = NaN\<rparr>]\<rparr>],
              pc_types := [[5]]\<rparr>)"
  unfolding add_ds_entry_new [of "''osd.op_latency.type''" 64, OF _ latency_keys, simplified]
  by (simp add: osd0_def get_matching_dset_def)

text \<open>
  Claim C6, as the code has it.  When \<^verbatim>\<open>ceph_daemon_add_ds_entry\<close> registers a counter, the
  type bits that count are the raw ones, except that under special-metric coercion the
  counter \<^verbatim>\<open>JournalWrBytes\<close> of the data set \<^verbatim>\<open>filestore\<close> gets the bits 10.  They are
  stored in \<open>pc_types\<close>.  For bits that do not have both \<open>0x4\<close> and \<open>0x8\<close> set: the
  counter is a latency pair when bit \<open>0x4\<close> is set, a derive counter when bit \<open>0x8\<close> is
  set, and a gauge otherwise; a derive counter is registered as a DERIVE source with
  minimum 0, every other one as a GAUGE source without a minimum (NaN).
\<close>

theorem C6_classification:
  assumes ok: "ceph_daemon_add_ds_entry N csm alloc_ok dm name pc_type = (0, dm')"
    and pk: "parse_keys N name [] [] = Some (dset_n, ds_n)"
    and inv: "length (pc_types dm) = length (dset dm)"
    and eff: "eff = (if csm \<and> dset_n = ''filestore'' \<and> ds_n = ''JournalWrBytes''
                     then 10 else pc_type)"
    and one: "eff AND 4 = 0 \<or> eff AND 8 = 0"
    and i: "i = (case get_matching_dset dm dset_n of Some j \<Rightarrow> j | None \<Rightarrow> length (dset dm))"
  shows "i < length (dset dm')
       \<and> last (pc_types dm' ! i) = eff
       \<and> pc_kind eff =
           (if eff AND 4 \<noteq> 0 then LatencyPair else if eff AND 8 \<noteq> 0 then Derive else Gauge)
       \<and> last (ds (dset dm' ! i)) =
           \<lparr>dsrc_name = take 19 ds_n,
            dsrc_type = (if pc_kind eff = Derive then DS_TYPE_DERIVE else DS_TYPE_GAUGE),
            dsrc_min = (if pc_kind eff = Derive then Fin 0 else NaN),
            dsrc_max = NaN\<rparr>"
proof -
  have k: "pc_kind eff =
           (if eff AND 4 \<noteq> 0 then LatencyPair else if eff AND 8 \<noteq> 0 then Derive else Gauge)"
    by (simp add: pc_kind_def PERFCOUNTER_LATENCY_def PERFCOUNTER_DERIVE_def)
  have kd: "(pc_kind eff = Derive) = (eff AND 8 \<noteq> 0)"
    using one unfolding k by auto
  show ?thesis
    using add_ds_entry_registered [OF ok pk inv] k
    unfolding kd Let_def eff [symmetric] i [symmetric] by simp
qed

text \<open>
  The rule at the latency counter \<^verbatim>\<open>osd.op_latency\<close> with type bits 5.
\<close>

theorem C6_classification_witness:
  "last (ds (dset (snd (ceph_daemon_add_ds_entry 64 True True osd0 ''osd.op_latency.type'' 5)) ! 0)) =
     \<lparr>dsrc_name = ''OpLatency'', dsrc_type = DS_TYPE_GAUGE, dsrc_min = NaN, dsrc_max = NaN\<rparr>
   \<and> last (pc_types (snd (ceph_daemon_add_ds_entry 64 True True osd0 ''osd.op_latency.type'' 5)) ! 0) = 5
   \<and> pc_kind 5 = LatencyPair"
proof -
  have i: "0 = (case get_matching_dset osd0 ''osd'' of Some j \<Rightarrow> j | None \<Rightarrow> length (dset osd0))"
    by (simp add: osd0_def get_matching_dset_def)
  have inv: "length (pc_types osd0) = length (dset osd0)"
    by (simp add: osd0_def)
  have eff: "(5 :: int) = (if True \<and> ''osd'' = ''filestore'' \<and> ''OpLatency'' = ''JournalWrBytes''
                     then 10 else 5)"
    by simp
  have one: "(5 :: int) AND 4 = 0 \<or> (5 :: int) AND 8 = 0"
    by simp
  show ?thesis
    using C6_classification [OF add_latency latency_keys inv eff one i]
    unfolding add_latency by simp
qed

text \<open>
  Claim C6 as stated fails for \<^verbatim>\<open>filestore.journal_wr_bytes\<close> with the raw type bits 5 under
  special-metric coercion: bit \<open>0x4\<close> is set and bit \<open>0x8\<close> is not, yet the counter is
  registered with the bits 10, as a DERIVE source with minimum 0.
\<close>

theorem C6_counterexample:
  "(5 :: int) AND 4 \<noteq> 0 \<and> (5 :: int) AND 8 = 0
   \<and> ceph_daemon_add_ds_entry 64 True True osd0 ''filestore.journal_wr_bytes.type'' 5 =
       (0, osd0\<lparr>dset := [\<lparr>dset_type = ''filestore'',
                          ds = [\<lparr>dsrc_name = ''JournalWrBytes'', dsrc_type = DS_TYPE_DERIVE,
                                 dsrc_min = Fin 0, dsrc_max = NaN\<rparr>]\<rparr>],
                pc_types := [[10]]\<rparr>)
   \<and> pc_kind 10 = Derive"
  using add_journal
  by (simp add: pc_kind_def PERFCOUNTER_LATENCY_def PERFCOUNTER_DERIVE_def)

section \<open>The reducer on a latency pair\<close>

lemmas reducer_defs =
  journal_reply_def yajl_init_def callback_def ceph_cb_map_key_def ceph_cb_end_map_def
  ceph_cb_number_def first_key_def state_at_def strncat_key_def logging_def calls_of_def
  upt_rec RETRY_AVGCOUNT_def

lemma journal_coercion_on:
  assumes "4 \<le> D" "17 \<le> N"
    and "h a ''42.0'' ''filestore.journal_wr_bytes'' = Inr (r, a')" "r \<noteq> RETRY_AVGCOUNT"
  shows "calls_of (run_callbacks D N True (logging h) (yajl_init D, ([], a)) (yajl_events journal_reply))
          = Inr [(''42.0'', ''filestore.journal_wr_bytes'')]"
  using assms by (simp add: reducer_defs)

lemma journal_coercion_on_retry:
  assumes "4 \<le> D" "17 \<le> N"
    and "h a ''42.0'' ''filestore.journal_wr_bytes'' = Inr (RETRY_AVGCOUNT, a')"
    and "h a' ''42.0'' ''filestore.journal_wr_bytes.sum'' = Inr (r, a'')"
  shows "calls_of (run_callbacks D N True (logging h) (yajl_init D, ([], a)) (yajl_events journal_reply))
          = Inr [(''42.0'', ''filestore.journal_wr_bytes''),
                 (''42.0'', ''filestore.journal_wr_bytes.sum'')]"
  using assms by (simp add: reducer_defs)

lemma journal_coercion_off:
  assumes "4 \<le> D" "17 \<le> N"
    and "h a ''7'' ''filestore.journal_wr_bytes'' = Inr (r1, a1)"
    and "r1 \<noteq> RETRY_AVGCOUNT" and "r1 \<noteq> - errno_of ENOMEM"
    and "h a1 ''42.0'' ''filestore.journal_wr_bytes'' = Inr (r2, a2)" and "r2 \<noteq> RETRY_AVGCOUNT"
  shows "calls_of (run_callbacks D N False (logging h) (yajl_init D, ([], a)) (yajl_events journal_reply))
          = Inr [(''7'', ''filestore.journal_wr_bytes''), (''42.0'', ''filestore.journal_wr_bytes'')]"
  using assms by (simp add: reducer_defs)

text \<open>
  Claim C5, as the code has it.  On the reply
  \<^verbatim>\<open>{"filestore":{"journal_wr_bytes":{"avgcount":7,"sum":42.0}}}\<close> with special-metric
  coercion, the \<^verbatim>\<open>avgcount\<close> leaf is skipped and the handler is called once, for the path
  \<^verbatim>\<open>filestore.journal_wr_bytes\<close> with the value text \<^verbatim>\<open>42.0\<close>: the reducer leaves a final
  \<^verbatim>\<open>avgcount\<close> or \<^verbatim>\<open>sum\<close> off the path, and appends it in a second call only when the
  handler answers \<^verbatim>\<open>RETRY_AVGCOUNT\<close>.  Without coercion the handler is called twice under
  that same path, with \<^verbatim>\<open>7\<close> and then with \<^verbatim>\<open>42.0\<close>.  (The handler \<open>h\<close> is any handler
  that does not ask for a retry and does not fail on the first value.)
\<close>

theorem C5_journal_reply_callbacks:
  assumes "4 \<le> D" and "17 \<le> N"
    and "h a ''42.0'' ''filestore.journal_wr_bytes'' = Inr (r, a')" and "r \<noteq> RETRY_AVGCOUNT"
    and "h a ''7'' ''filestore.journal_wr_bytes'' = Inr (r1, a1)"
    and "r1 \<noteq> RETRY_AVGCOUNT" and "r1 \<noteq> - errno_of ENOMEM"
    and "h a1 ''42.0'' ''filestore.journal_wr_bytes'' = Inr (r2, a2)" and "r2 \<noteq> RETRY_AVGCOUNT"
  shows "calls_of (run_callbacks D N True (logging h) (yajl_init D, ([], a)) (yajl_events journal_reply))
          = Inr [(''42.0'', ''filestore.journal_wr_bytes'')]
       \<and> calls_of (run_callbacks D N False (logging h) (yajl_init D, ([], a)) (yajl_events journal_reply))
          = Inr [(''7'', ''filestore.journal_wr_bytes''), (''42.0'', ''filestore.journal_wr_bytes'')]"
  using journal_coercion_on [where h = h and a = a, OF assms(1,2,3,4)]
    journal_coercion_off [where h = h and a = a and ?a1.0 = a1, OF assms(1,2,5,6,7,8,9)]
  by simp

text \<open>
  The two runs with a handler that accepts every value.
\<close>

theorem C5_journal_reply_callbacks_witness:
  "calls_of (run_callbacks 128 64 True (logging (\<lambda>a v k. Inr (0, a))) (yajl_init 128, ([], ()))
       (yajl_events journal_reply))
     = Inr [(''42.0'', ''filestore.journal_wr_bytes'')]
   \<and> calls_of (run_callbacks 128 64 False (logging (\<lambda>a v k. Inr (0, a))) (yajl_init 128, ([], ()))
       (yajl_events journal_reply))
     = Inr [(''7'', ''filestore.journal_wr_bytes''), (''42.0'', ''filestore.journal_wr_bytes'')]"
  using C5_journal_reply_callbacks [where D = 128 and N = 64 and h = "\<lambda>a v k. Inr (0, a)"
      and a = "()" and r = 0 and a' = "()" and ?r1.0 = 0 and ?a1.0 = "()" and ?r2.0 = 0 and ?a2.0 = "()"]
  by (simp add: RETRY_AVGCOUNT_def)

text \<open>
  Claim C5 as stated fails: with coercion, a handler that accepts the value is called
  once with the path \<^verbatim>\<open>filestore.journal_wr_bytes\<close>, not \<^verbatim>\<open>filestore.journal_wr_bytes.sum\<close>;
  the longer path is only seen by a handler that asked for a retry, and then as a second
  call.
\<close>

theorem C5_counterexample:
  "calls_of (run_callbacks 128 64 True (logging (\<lambda>a v k. Inr (0, a))) (yajl_init 128, ([], ()))
       (yajl_events journal_reply))
     = Inr [(''42.0'', ''filestore.journal_wr_bytes'')]
   \<and> calls_of (run_callbacks 128 64 True (logging (\<lambda>a v k. Inr (0, a))) (yajl_init 128, ([], ()))
       (yajl_events journal_reply))
     \<noteq> Inr [(''42.0'', ''filestore.journal_wr_bytes.sum'')]
   \<and> calls_of (run_callbacks 128 64 True (logging (\<lambda>a v k. Inr (RETRY_AVGCOUNT, a))) (yajl_init 128, ([], ()))
       (yajl_events journal_reply))
     = Inr [(''42.0'', ''filestore.journal_wr_bytes''), (''42.0'', ''filestore.journal_wr_bytes.sum'')]"
proof -
  have 1: "calls_of (run_callbacks 128 64 True (logging (\<lambda>a v k. Inr (0, a))) (yajl_init 128, ([], ()))
       (yajl_events journal_reply))
     = Inr [(''42.0'', ''filestore.journal_wr_bytes'')]"
    by (rule journal_coercion_on [where h = "\<lambda>a v k. Inr (0, a)" and a = "()" and r = 0 and a' = "()"])
      (simp_all add: RETRY_AVGCOUNT_def)
  have 2: "calls_of (run_callbacks 128 64 True (logging (\<lambda>a v k. Inr (RETRY_AVGCOUNT, a))) (yajl_init 128, ([], ()))
       (yajl_events journal_reply))
     = Inr [(''42.0'', ''filestore.journal_wr_bytes''), (''42.0'', ''filestore.journal_wr_bytes.sum'')]"
    by (rule journal_coercion_on_retry [where h = "\<lambda>a v k. Inr (RETRY_AVGCOUNT, a)" and a = "()"
          and a' = "()" and a'' = "()" and r = RETRY_AVGCOUNT]) simp_all
  show ?thesis unfolding 1 2 by simp
qed

section \<open>Accesses to the key stack\<close>

lemma strncat_key_no_oob: "strncat_key key src n \<noteq> Inl (OutOfBounds j)"
  by (simp add: strncat_key_def Let_def)

lemma state_at_in_range:
  "0 \<le> i \<Longrightarrow> i < int (length (state y)) \<Longrightarrow> state_at y i = Inr (state y ! nat i)"
  by (simp add: state_at_def)

lemma number_loop_no_oob:
  assumes "3 \<le> depth y" and "depth y \<le> int (length (state y))"
    and "\<forall>i \<in> set is. 1 \<le> i \<and> int i < depth y"
  shows "number_loop csm y is key \<noteq> Inl (OutOfBounds j)"
  using assms(3)
proof (induction "is" arbitrary: key)
  case Nil
  then show ?case by simp
next
  case (Cons i is')
  have i: "1 \<le> i" "int i < depth y" using Cons.prems by auto
  obtain k klen where s: "state_at y (int i) = Inr (k, klen)"
    using state_at_in_range [of "int i" y] i assms(2) by (cases "state y ! i") auto
  have rest: "number_loop csm y is' key' \<noteq> Inl (OutOfBounds j)" for key'
    using Cons.IH Cons.prems by auto
  show ?case
  proof (cases "int i = depth y - 1 \<and> (k = ''avgcount'' \<or> k = ''sum'')")
    case True
    then have i2: "2 \<le> int i" using assms(1) by linarith
    obtain k1 l1 where s1: "state_at y (int i - 1) = Inr (k1, l1)"
      using state_at_in_range [of "int i - 1" y] i i2 assms(2)
      by (cases "state y ! nat (int i - 1)") auto
    obtain k2 l2 where s2: "state_at y (int i - 2) = Inr (k2, l2)"
      using state_at_in_range [of "int i - 2" y] i i2 assms(2)
      by (cases "state y ! nat (int i - 2)") auto
    show ?thesis using True s s1 s2 by simp
  next
    case False
    show ?thesis
      using False s rest strncat_key_no_oob
      by (auto split: sum.splits)
  qed
qed

lemma first_key_no_oob:
  "0 < length (state y) \<Longrightarrow> first_key y \<noteq> Inl (OutOfBounds j)"
  by (auto simp add: first_key_def state_at_def split: prod.splits)

lemma ceph_cb_number_no_oob:
  assumes "3 \<le> depth y" and "depth y \<le> int (length (state y))"
    and hno: "\<And>a v k j. h a v k \<noteq> Inl (OutOfBounds j)"
  shows "ceph_cb_number csm h (y, a) v \<noteq> Inl (OutOfBounds j)"
proof -
  have "0 < length (state y)" using assms(1,2) by linarith
  then have fk: "first_key y \<noteq> Inl (OutOfBounds j)"
    by (rule first_key_no_oob)
  have rng: "\<forall>i \<in> set [1 ..< nat (depth y)]. 1 \<le> i \<and> int i < depth y"
    by auto
  have nl: "number_loop csm y [1 ..< nat (depth y)] key \<noteq> Inl (OutOfBounds j)" for key
    by (rule number_loop_no_oob [OF assms(1,2) rng])
  obtain k klen where s: "state_at y (depth y - 1) = Inr (k, klen)"
    using state_at_in_range [of "depth y - 1" y] assms(1,2)
    by (cases "state y ! nat (depth y - 1)") auto
  show ?thesis
    unfolding ceph_cb_number_def
    using fk nl hno strncat_key_no_oob s
    by (auto simp add: Let_def split: sum.splits option.splits prod.splits if_splits)
qed

lemma ceph_cb_number_depth2:
  assumes "depth y = 2" and "2 \<le> length (state y)"
    and "state y ! 0 = (k0, l0)" and "0 < l0" and "l0 \<le> 128"
    and "state y ! 1 = (k1, l1)" and "k1 = ''avgcount'' \<or> k1 = ''sum''"
    and hno: "\<And>a v k j. h a v k \<noteq> Inl (OutOfBounds j)"
  shows "(ceph_cb_number True h (y, a) v = Inl (OutOfBounds (- 1))) = (k0 = ''journal_wr_bytes'')"
proof (cases "k0 = ''journal_wr_bytes''")
  case True
  then show ?thesis
    using assms(1-7)
    by (auto simp add: ceph_cb_number_def first_key_def state_at_def upt_rec)
next
  case False
  then show ?thesis
    using assms(1-7) hno
    by (auto simp add: ceph_cb_number_def first_key_def state_at_def upt_rec Let_def
        strncat_key_def split: sum.splits prod.splits if_splits)
qed


text \<open>
  Claim C9, as the code has it.  With special-metric coercion, when the key of a numeric
  leaf is \<^verbatim>\<open>avgcount\<close> or \<^verbatim>\<open>sum\<close>, \<^verbatim>\<open>ceph_cb_number\<close> compares the key at \<open>depth - 2\<close>
  with \<^verbatim>\<open>journal_wr_bytes\<close> and, only when they are equal, reads the key at \<open>depth - 3\<close>.
  For a leaf at depth 2 the key stack is read at index \<open>-1\<close> exactly when the enclosing
  key is \<^verbatim>\<open>journal_wr_bytes\<close>; for a leaf at depth 3 or more (within the stack) no access
  is out of bounds.  The handler \<open>h\<close> is any handler that does not itself report such an
  access.
\<close>

theorem C9_key_stack_access:
  assumes hno: "\<And>a v k j. h a v k \<noteq> Inl (OutOfBounds j)"
  shows "(depth y = 2 \<and> 2 \<le> length (state y) \<and> state y ! 0 = (k0, l0) \<and> 0 < l0 \<and> l0 \<le> 128
            \<and> state y ! 1 = (k1, l1) \<and> (k1 = ''avgcount'' \<or> k1 = ''sum'')
          \<longrightarrow> (ceph_cb_number True h (y, a) v = Inl (OutOfBounds (- 1)))
                = (k0 = ''journal_wr_bytes''))
       \<and> (3 \<le> depth y \<and> depth y \<le> int (length (state y))
          \<longrightarrow> ceph_cb_number csm h (y, a) v \<noteq> Inl (OutOfBounds j))"
  using ceph_cb_number_depth2 [where h = h and y = y and a = a and v = v, OF _ _ _ _ _ _ _ hno]
    ceph_cb_number_no_oob [where h = h and y = y and a = a and v = v, OF _ _ hno]
  by blast

text \<open>
  The out-of-bounds read at \<^verbatim>\<open>{"journal_wr_bytes":{"sum":1}}\<close>, and its absence one level
  deeper.
\<close>

theorem C9_key_stack_access_witness:
  "ceph_cb_number True (\<lambda>a v k. Inr (0, a))
      (\<lparr>state = [(''journal_wr_bytes'', 17), (''sum'', 4)], depth = 2\<rparr>, ()) ''1''
     = Inl (OutOfBounds (- 1))
   \<and> ceph_cb_number True (\<lambda>a v k. Inr (0, a))
      (\<lparr>state = [(''filestore'', 10), (''journal_wr_bytes'', 17), (''sum'', 4)], depth = 3\<rparr>, ()) ''1''
     \<noteq> Inl (OutOfBounds (- 1))"
  using C9_key_stack_access [where h = "\<lambda>a v k. Inr (0, a)"
      and y = "\<lparr>state = [(''journal_wr_bytes'', 17), (''sum'', 4)], depth = 2\<rparr>"
      and ?k0.0 = "''journal_wr_bytes''" and ?l0.0 = 17 and ?k1.0 = "''sum''" and ?l1.0 = 4
      and a = "()" and v = "''1''"]
    C9_key_stack_access [where h = "\<lambda>a v k. Inr (0, a)"
      and y = "\<lparr>state = [(''filestore'', 10), (''journal_wr_bytes'', 17), (''sum'', 4)], depth = 3\<rparr>"
      and a = "()" and v = "''1''" and csm = True and j = "- 1"]
  by simp

text \<open>
  Claim C9 as stated fails at \<^verbatim>\<open>{"a":{"sum":1}}\<close>: the leaf \<^verbatim>\<open>sum\<close> is at depth 2, and the
  run reads nothing outside the key stack.
\<close>

theorem C9_counterexample:
  "run_callbacks 128 64 True (logging (\<lambda>a v k. Inr (0, a))) (yajl_init 128, ([], ()))
       (yajl_events (JMap [(''a'', JMap [(''sum'', JNumber ''1'')])]))
     \<noteq> Inl (OutOfBounds (- 1))
   \<and> calls_of (run_callbacks 128 64 True (logging (\<lambda>a v k. Inr (0, a))) (yajl_init 128, ([], ()))
       (yajl_events (JMap [(''a'', JMap [(''sum'', JNumber ''1'')])])))
     = Inr [(''1'', ''a'')]
   \<and> ceph_cb_number True (\<lambda>a v k. Inr (0, a))
       (\<lparr>state = [(''a'', 2), (''sum'', 4)], depth = 2\<rparr>, ()) ''1''
     = Inr (CEPH_CB_CONTINUE, \<lparr>state = [(''a'', 2), (''sum'', 4)], depth = 1\<rparr>, ())"
  by (simp add: yajl_init_def callback_def ceph_cb_map_key_def ceph_cb_end_map_def
      ceph_cb_number_def first_key_def state_at_def strncat_key_def logging_def calls_of_def
      upt_rec RETRY_AVGCOUNT_def)

section \<open>The divisor of the latency average\<close>

lemma scan_counts:
  "sscanf_u64 ''0'' = Some 0"
  "sscanf_u64 ''1'' = Some 1"
  "sscanf_u64 ''5'' = Some 5"
  by (simp_all add: sscanf_u64_def read_sign_def isspace_c_def isdigit_c_def decimal_of_def Let_def)

lemma scan_sums:
  "sscanf_lf ''0.0'' = Some (Fin 0)"
  "sscanf_lf ''0.5'' = Some (Fin (1 / 2))"
  "sscanf_lf ''10.0'' = Some (Fin 10)"
  "sscanf_lf ''12.0'' = Some (Fin 12)"
  by (simp_all add: sscanf_lf_def read_sign_def isspace_c_def isdigit_c_def decimal_of_def Let_def)

lemma latency_path: "parse_keys 64 ''osd.op_latency'' [] [] = Some (''osd'', ''OpLatency'')"
  by code_simp

lemma latency_lookup:
  "get_matching_dset osd_latency ''osd'' = Some 0"
  "get_matching_value (dset osd_latency ! 0) ''OpLatency'' (length (ds (dset osd_latency ! 0))) = Some 0"
  "pc_types osd_latency ! 0 ! 0 = 5"
  by (simp_all add: osd_latency_def osd0_def get_matching_dset_def get_matching_value_def)

lemma fetch_count:
  assumes "sscanf_u64 txt = Some c"
  shows "node_handler_fetch_data 64 lra True (latency_poll, lpd) txt ''osd.op_latency''
     = Inr (0, (latency_poll\<lparr>avgcount := c\<rparr>, lpd))"
  using assms
  by (simp add: node_handler_fetch_data_def latency_path latency_lookup latency_poll_def
      PERFCOUNTER_LATENCY_def)

lemma fetch_sum_interval:
  assumes "sscanf_lf txt = Some s" and "c \<noteq> - 1"
    and "get_last_avg 64 True lpd ''osd'' ''OpLatency'' s (if c = 0 then 1 else c) = (r, lpd')"
    and "\<not> deq r (Fin (- 12))"
  shows "node_handler_fetch_data 64 False True (latency_poll\<lparr>avgcount := c\<rparr>, lpd) txt ''osd.op_latency''
     = Inr (0, (latency_poll\<lparr>vh := [[VGauge r]]\<rparr>, lpd'))"
proof (cases "c = 0")
  case True
  then show ?thesis
    using assms
    by (simp add: node_handler_fetch_data_def latency_path latency_lookup latency_poll_def
        PERFCOUNTER_LATENCY_def set_value_def double_of_int_def)
next
  case False
  then show ?thesis
    using assms
    by (simp add: node_handler_fetch_data_def latency_path latency_lookup latency_poll_def
        PERFCOUNTER_LATENCY_def set_value_def double_of_int_def)
qed

lemma fetch_sum_long_run:
  assumes "sscanf_lf txt = Some s" and "c \<noteq> - 1"
  shows "node_handler_fetch_data 64 True True (latency_poll\<lparr>avgcount := c\<rparr>, lpd) txt ''osd.op_latency''
     = Inr (0, (latency_poll\<lparr>vh := [[VGauge (ddiv s (double_of_u64 (if c = 0 then 1 else c)))]]\<rparr>, lpd))"
  using assms
  by (simp add: node_handler_fetch_data_def latency_path latency_lookup latency_poll_def
      PERFCOUNTER_LATENCY_def set_value_def)

text \<open>
  Claim C2 against the code.  The guard of \<^verbatim>\<open>node_handler_fetch_data\<close> replaces a current
  count of zero by one, which keeps the divisor of the long-run average away from zero.
  In interval mode the divisor is the count difference, and nothing keeps it away from
  zero.  A latency key observed as (sum 10.0, count 5) and then as (sum 12.0, count 5)
  has the count difference 0, and the value stored for the second poll is the quotient
  of 2 by 0, an infinity.  The same happens after a first observation with the count 0:
  the baseline is stored with the count 1, and the observation (sum 0.5, count 1) that
  follows is divided by 1 - 1.
\<close>

theorem C2_zero_count_delta:
  "fetch_pair 64 False True (latency_poll, []) ''osd.op_latency'' ''5'' ''10.0''
     = Inr (0, (latency_poll\<lparr>vh := [[VGauge NaN]]\<rparr>,
                [\<lparr>dset_name = ''osd'', ds_name = ''OpLatency'', last_sum = Fin 10, last_count = 5\<rparr>]))
   \<and> fetch_pair 64 False True
        (latency_poll,
         [\<lparr>dset_name = ''osd'', ds_name = ''OpLatency'', last_sum = Fin 10, last_count = 5\<rparr>])
        ''osd.op_latency'' ''5'' ''12.0''
     = Inr (0, (latency_poll\<lparr>vh := [[VGauge PInf]]\<rparr>,
                [\<lparr>dset_name = ''osd'', ds_name = ''OpLatency'', last_sum = Fin 12, last_count = 5\<rparr>]))
   \<and> fst (get_last_avg 64 True
        [\<lparr>dset_name = ''osd'', ds_name = ''OpLatency'', last_sum = Fin 10, last_count = 5\<rparr>]
        ''osd'' ''OpLatency'' (Fin 12) 5)
     = ddiv (Fin 2) (double_of_u64 (5 - 5))
   \<and> double_of_u64 (5 - 5) = Fin 0
   \<and> fetch_pair 64 False True (latency_poll, []) ''osd.op_latency'' ''0'' ''0.0''
     = Inr (0, (latency_poll\<lparr>vh := [[VGauge NaN]]\<rparr>,
                [\<lparr>dset_name = ''osd'', ds_name = ''OpLatency'', last_sum = Fin 0, last_count = 1\<rparr>]))
   \<and> fetch_pair 64 False True
        (latency_poll,
         [\<lparr>dset_name = ''osd'', ds_name = ''OpLatency'', last_sum = Fin 0, last_count = 1\<rparr>])
        ''osd.op_latency'' ''1'' ''0.5''
     = Inr (0, (latency_poll\<lparr>vh := [[VGauge PInf]]\<rparr>,
                [\<lparr>dset_name = ''osd'', ds_name = ''OpLatency'', last_sum = Fin (1 / 2), last_count = 1\<rparr>]))
   \<and> fetch_pair 64 True True (latency_poll, []) ''osd.op_latency'' ''0'' ''0.0''
     = Inr (0, (latency_poll\<lparr>vh := [[VGauge (Fin 0)]]\<rparr>, []))"
proof -
  let ?e = "\<lambda>s c. \<lparr>dset_name = ''osd'', ds_name = ''OpLatency'', last_sum = s, last_count = c\<rparr>"
  have first: "get_last_avg 64 True [] ''osd'' ''OpLatency'' s c = (NaN, [?e s c])" for s c
    by (simp add: get_last_avg_first sstrncpy_def MAX_RRD_DS_NAME_LEN_def)
  have g2: "get_last_avg 64 True [?e (Fin 10) 5] ''osd'' ''OpLatency'' (Fin 12) 5
              = (PInf, [?e (Fin 12) 5])"
    by (simp add: get_last_avg_def update_last_def no_result_def dsub_def double_of_u64_def Let_def)
  have g4: "get_last_avg 64 True [?e (Fin 0) 1] ''osd'' ''OpLatency'' (Fin (1 / 2)) 1
              = (PInf, [?e (Fin (1 / 2)) 1])"
    by (simp add: get_last_avg_def update_last_def no_result_def dsub_def double_of_u64_def Let_def)
  have p1: "fetch_pair 64 False True (latency_poll, []) ''osd.op_latency'' ''5'' ''10.0''
     = Inr (0, (latency_poll\<lparr>vh := [[VGauge NaN]]\<rparr>, [?e (Fin 10) 5]))"
    using fetch_sum_interval [OF scan_sums(3), where c = 5 and lpd = "[]"] first [of "Fin 10" 5]
    by (simp add: fetch_pair_def fetch_count [OF scan_counts(3)])
  have p2: "fetch_pair 64 False True (latency_poll, [?e (Fin 10) 5]) ''osd.op_latency'' ''5'' ''12.0''
     = Inr (0, (latency_poll\<lparr>vh := [[VGauge PInf]]\<rparr>, [?e (Fin 12) 5]))"
    using fetch_sum_interval [OF scan_sums(4), where c = 5 and lpd = "[?e (Fin 10) 5]"] g2
    by (simp add: fetch_pair_def fetch_count [OF scan_counts(3)])
  have p3: "fetch_pair 64 False True (latency_poll, []) ''osd.op_latency'' ''0'' ''0.0''
     = Inr (0, (latency_poll\<lparr>vh := [[VGauge NaN]]\<rparr>, [?e (Fin 0) 1]))"
    using fetch_sum_interval [OF scan_sums(1), where c = 0 and lpd = "[]"] first [of "Fin 0" 1]
    by (simp add: fetch_pair_def fetch_count [OF scan_counts(1)])
  have p4: "fetch_pair 64 False True (latency_poll, [?e (Fin 0) 1]) ''osd.op_latency'' ''1'' ''0.5''
     = Inr (0, (latency_poll\<lparr>vh := [[VGauge PInf]]\<rparr>, [?e (Fin (1 / 2)) 1]))"
    using fetch_sum_interval [OF scan_sums(2), where c = 1 and lpd = "[?e (Fin 0) 1]"] g4
    by (simp add: fetch_pair_def fetch_count [OF scan_counts(2)])
  have p5: "fetch_pair 64 True True (latency_poll, []) ''osd.op_latency'' ''0'' ''0.0''
     = Inr (0, (latency_poll\<lparr>vh := [[VGauge (Fin 0)]]\<rparr>, []))"
    using fetch_sum_long_run [OF scan_sums(1), where c = 0 and lpd = "[]"]
    by (simp add: fetch_pair_def fetch_count [OF scan_counts(1)] double_of_u64_def)
  show ?thesis unfolding p1 p2 p3 p4 p5 g2 by (simp add: double_of_u64_def)
qed

section \<open>The version check\<close>

lemma read_version_complete:
  assumes st: "io_state io = CSTATE_READ_VERSION"
    and len: "length (io_word io) = 4"
    and r: "0 \<le> io_ret r" "length (io_data r) = nat (io_ret r)"
    and full: "unat (io_amt io) + length (io_data r) = 4"
  shows "cconn_handle_event cfg alloc_ok r w io =
          (let bytes = take (unat (io_amt io)) (io_word io) @ io_data r;
               io1 = io\<lparr>io_word := bytes, io_amt := 4,
                        io_d := (io_d io)\<lparr>version := ntohl_bytes bytes\<rparr>\<rparr>
           in if ntohl_bytes bytes = 1
              then Inr (0, (fst (cconn_close io1 w))\<lparr>io_request_type := ASOK_REQ_FSID\<rparr>,
                        snd (cconn_close io1 w))
              else Inr (- errno_of ENOTSUP, io1, w))"
proof -
  have amt: "io_amt io + word_of_int (io_ret r) = 4"
  proof -
    have "io_ret r = int (length (io_data r))" using r by simp
    then have "io_amt io + word_of_int (io_ret r)
        = word_of_nat (unat (io_amt io)) + word_of_nat (length (io_data r))"
      by simp
    also have "\<dots> = word_of_nat (unat (io_amt io) + length (io_data r))"
      by (simp only: of_nat_add)
    also have "\<dots> = 4" using full by simp
    finally show ?thesis .
  qed
  have sb: "store_bytes (io_word io) (unat (io_amt io)) (take (nat (io_ret r)) (io_data r))
              = Inr (take (unat (io_amt io)) (io_word io) @ io_data r)"
    using len r full by (simp add: store_bytes_def)
  have nn: "\<not> io_ret r < 0" using r by simp
  show ?thesis
    using st nn by (simp add: cconn_handle_event_def sb amt Let_def cconn_close_def case_prod_unfold)
qed

lemma read_version_fsid_only:
  assumes st: "io_state io = CSTATE_READ_VERSION"
    and rt: "io_request_type io \<noteq> ASOK_REQ_FSID"
    and res: "cconn_handle_event cfg alloc_ok r w io = Inr (ret, io', w')"
  shows "io_request_type io' = ASOK_REQ_FSID \<longleftrightarrow>
           (ret = 0 \<and> version (io_d io') = 1 \<and> io_state io' = CSTATE_UNCONNECTED
            \<and> io_asok io' = - 1)"
  using st rt res
  by (auto simp add: cconn_handle_event_def Let_def cconn_close_def case_prod_unfold
      split: if_splits sum.splits)


text \<open>
  Claim C7.  In the state \<^verbatim>\<open>CSTATE_READ_VERSION\<close>, when a \<^verbatim>\<open>read\<close> completes the four
  bytes of the version, their big-endian value \<open>v\<close> is stored as the daemon's version.
  If \<open>v\<close> is not 1, \<^verbatim>\<open>cconn_handle_event\<close> returns \<^verbatim>\<open>-ENOTSUP\<close>, and the connection keeps
  the request type \<^verbatim>\<open>ASOK_REQ_VERSION\<close> and its state: it does not move on to the FSID or
  the Schema request.  If \<open>v\<close> is 1 it returns 0 with the socket closed and the request
  type set to \<^verbatim>\<open>ASOK_REQ_FSID\<close>.  And no call in this state leaves the request type at
  \<^verbatim>\<open>ASOK_REQ_FSID\<close> unless the version is 1.
\<close>

theorem C7_version_check:
  assumes st: "io_state io = CSTATE_READ_VERSION"
    and rt: "io_request_type io = ASOK_REQ_VERSION"
    and len: "length (io_word io) = 4"
    and r: "0 \<le> io_ret r" "length (io_data r) = nat (io_ret r)"
    and full: "unat (io_amt io) + length (io_data r) = 4"
  shows "(let bytes = take (unat (io_amt io)) (io_word io) @ io_data r;
              v = ntohl_bytes bytes;
              io1 = io\<lparr>io_word := bytes, io_amt := 4, io_d := (io_d io)\<lparr>version := v\<rparr>\<rparr>
          in cconn_handle_event cfg alloc_ok r w io =
               (if v = 1
                then Inr (0, (fst (cconn_close io1 w))\<lparr>io_request_type := ASOK_REQ_FSID\<rparr>,
                          snd (cconn_close io1 w))
                else Inr (- errno_of ENOTSUP, io1, w))
             \<and> io_request_type io1 = ASOK_REQ_VERSION \<and> io_state io1 = CSTATE_READ_VERSION
             \<and> io_state (fst (cconn_close io1 w)) = CSTATE_UNCONNECTED
             \<and> io_asok (fst (cconn_close io1 w)) = - 1
             \<and> (io_asok io \<noteq> - 1
                  \<longrightarrow> closed_fds (snd (cconn_close io1 w)) = closed_fds w @ [io_asok io]))
       \<and> (\<forall>alloc_ok' r' w' ret io' w''.
             cconn_handle_event cfg alloc_ok' r' w' io = Inr (ret, io', w'')
               \<and> io_request_type io' = ASOK_REQ_FSID
             \<longrightarrow> ret = 0 \<and> version (io_d io') = 1 \<and> io_state io' = CSTATE_UNCONNECTED
                  \<and> io_asok io' = - 1)"
proof -
  have ne: "io_request_type io \<noteq> ASOK_REQ_FSID"
    using rt by (simp add: ASOK_REQ_VERSION_def ASOK_REQ_FSID_def)
  have a: "\<forall>alloc_ok' r' w' ret io' w''.
             cconn_handle_event cfg alloc_ok' r' w' io = Inr (ret, io', w'')
               \<and> io_request_type io' = ASOK_REQ_FSID
             \<longrightarrow> ret = 0 \<and> version (io_d io') = 1 \<and> io_state io' = CSTATE_UNCONNECTED
                  \<and> io_asok io' = - 1"
    using read_version_fsid_only [OF st ne] by blast
  have b: "(let bytes = take (unat (io_amt io)) (io_word io) @ io_data r;
              v = ntohl_bytes bytes;
              io1 = io\<lparr>io_word := bytes, io_amt := 4, io_d := (io_d io)\<lparr>version := v\<rparr>\<rparr>
          in cconn_handle_event cfg alloc_ok r w io =
               (if v = 1
                then Inr (0, (fst (cconn_close io1 w))\<lparr>io_request_type := ASOK_REQ_FSID\<rparr>,
                          snd (cconn_close io1 w))
                else Inr (- errno_of ENOTSUP, io1, w))
             \<and> io_request_type io1 = ASOK_REQ_VERSION \<and> io_state io1 = CSTATE_READ_VERSION
             \<and> io_state (fst (cconn_close io1 w)) = CSTATE_UNCONNECTED
             \<and> io_asok (fst (cconn_close io1 w)) = - 1
             \<and> (io_asok io \<noteq> - 1
                  \<longrightarrow> closed_fds (snd (cconn_close io1 w)) = closed_fds w @ [io_asok io]))"
    using read_version_complete [OF st len r full, of cfg alloc_ok w] st rt
    by (simp add: Let_def cconn_close_def)
  show ?thesis using a b by (rule conjI [rotated])
qed

text \<open>
  The version bytes 00 00 00 02 decode to 2 and give \<^verbatim>\<open>-ENOTSUP\<close> (\<open>-95\<close>).
\<close>

theorem C7_version_check_witness:
  "cconn_handle_event cfg0 True \<lparr>io_ret = 4, io_data = [0, 0, 0, 2]\<rparr>
      world0
      ((cconn_init cfg0 ASOK_REQ_VERSION osd0)\<lparr>io_state := CSTATE_READ_VERSION, io_asok := 5\<rparr>)
    = Inr (- 95,
           (cconn_init cfg0 ASOK_REQ_VERSION osd0)
             \<lparr>io_state := CSTATE_READ_VERSION, io_asok := 5, io_word := [0, 0, 0, 2], io_amt := 4,
              io_d := osd0\<lparr>version := 2\<rparr>\<rparr>,
           world0)
   \<and> ntohl_bytes [0, 0, 0, 2] = 2"
proof -
  have n: "ntohl_bytes [0, 0, 0, 2] = 2" by (simp add: ntohl_bytes_def)
  show ?thesis
    using C7_version_check [where io = "(cconn_init cfg0 ASOK_REQ_VERSION osd0)\<lparr>io_state := CSTATE_READ_VERSION, io_asok := 5\<rparr>"
        and r = "\<lparr>io_ret = 4, io_data = [0, 0, 0, 2]\<rparr>" and cfg = cfg0 and alloc_ok = True
        and w = world0]
    by (simp add: cconn_init_def n Let_def)
qed

section \<open>Termination of the event loop\<close>

lemma cconn_prepare_cases:
  assumes "cconn_prepare res io w = (ret, io', fd, w')"
  shows "ret < 0 \<or> ret = 1 \<or> (ret = 0 \<and> io' = io \<and> w' = w \<and> inactive io)"
  using assms
  by (auto simp add: cconn_prepare_def cconn_connect_def inactive_def Let_def
      split: if_splits cstate_t.splits)

lemma prepare_loop_length:
  "length (fst (prepare_loop conn i ios w)) = length ios"
  by (induction ios arbitrary: i w) (simp_all add: Let_def case_prod_unfold)

lemma inactive_closed_none:
  "inactive ((fst (cconn_close io w))\<lparr>io_request_type := ASOK_REQ_NONE\<rparr>)"
  by (simp add: inactive_def)

lemma prepare_loop_none_polled:
  "prepare_loop conn i ios w = (ios', [], u, w') \<Longrightarrow> \<forall>io \<in> set ios'. inactive io"
proof (induction ios arbitrary: i ios' u w w')
  case Nil
  then show ?case by simp
next
  case (Cons io ios)
  obtain ret io1 fd w0 where p: "cconn_prepare (conn i) io w = (ret, io1, fd, w0)"
    by (cases "cconn_prepare (conn i) io w") auto
  show ?case
  proof (cases "ret < 0")
    case True
    obtain ios1 polled u1 w1 where
      q: "prepare_loop conn (Suc i) ios (snd (cconn_close io1 w0)) = (ios1, polled, u1, w1)"
      by (cases "prepare_loop conn (Suc i) ios (snd (cconn_close io1 w0))") auto
    from Cons.prems p q True have pol: "polled = []"
      and hd: "ios' = (fst (cconn_close io1 w0))\<lparr>io_request_type := ASOK_REQ_NONE\<rparr> # ios1"
      by (auto simp add: Let_def case_prod_unfold)
    have "\<forall>x \<in> set ios1. inactive x"
      using Cons.IH [of "Suc i" "snd (cconn_close io1 w0)" ios1 u1 w1] q pol by simp
    then show ?thesis using hd inactive_closed_none by auto
  next
    case False
    obtain ios1 polled u1 w1 where
      q: "prepare_loop conn (Suc i) ios w0 = (ios1, polled, u1, w1)"
      by (cases "prepare_loop conn (Suc i) ios w0") auto
    from Cons.prems p q False have pol: "polled = []" and nr: "ret \<noteq> 1" and hd: "ios' = io1 # ios1"
      by (auto simp add: Let_def split: if_splits)
    have tl: "\<forall>x \<in> set ios1. inactive x"
      using Cons.IH [of "Suc i" w0 ios1 u1 w1] q pol by simp
    have "io1 = io \<and> inactive io"
      using cconn_prepare_cases [OF p] nr False by auto
    then show ?thesis using hd tl by auto
  qed
qed

lemma prepare_loop_inactive:
  "\<forall>io \<in> set ios. inactive io \<Longrightarrow> prepare_loop conn i ios w = (ios, [], False, w)"
  by (induction ios arbitrary: i) (auto simp add: inactive_def cconn_prepare_def)

lemma events_loop_length:
  "events_loop cfg it k is (w, ios, u) = Inr (w', ios', u') \<Longrightarrow> length ios' = length ios"
proof (induction "is" arbitrary: k w ios u)
  case Nil
  then show ?case by simp
next
  case (Cons i is')
  show ?case
  proof (cases "it_revents it k = 0")
    case True
    then show ?thesis using Cons.prems Cons.IH [of "Suc k" w ios u] by simp
  next
    case nz: False
    show ?thesis
    proof (cases "cconn_validate_revents (ios ! i) (it_revents it k) \<noteq> 0")
      case True
      then show ?thesis
        using nz Cons.prems
          Cons.IH [of "Suc k" "snd (cconn_close (ios ! i) w)"
            "ios[i := (fst (cconn_close (ios ! i) w))\<lparr>io_request_type := ASOK_REQ_NONE\<rparr>]" True]
        by (simp add: Let_def case_prod_unfold)
    next
      case v: False
      show ?thesis
      proof (cases "cconn_handle_event cfg (it_alloc it k) (it_io it k) w (ios ! i)")
        case (Inl f)
        then show ?thesis using nz v Cons.prems by (simp add: Let_def)
      next
        case (Inr t)
        obtain ret io1 w1 where t: "t = (ret, io1, w1)" by (cases t) auto
        show ?thesis
        proof (cases "ret = 0")
          case True
          then show ?thesis
            using nz v Inr t Cons.prems Cons.IH [of "Suc k" w1 "ios[i := io1]" u]
            by (simp add: Let_def)
        next
          case False
          then show ?thesis
            using nz v Inr t Cons.prems
              Cons.IH [of "Suc k" "snd (cconn_close io1 w1)"
                "ios[i := (fst (cconn_close io1 w1))\<lparr>io_request_type := ASOK_REQ_NONE\<rparr>]" True]
            by (simp add: Let_def case_prod_unfold)
        qed
      qed
    qed
  qed
qed

lemma main_loop_result:
  "main_loop cfg e its s = Some (Inr (ret, w', ios', u')) \<Longrightarrow>
     length ios' = length (fst (snd s))
     \<and> ((ret = 0 \<and> (\<forall>io \<in> set ios'. inactive io))
        \<or> (ret = - errno_of ETIMEDOUT \<and> (\<exists>it \<in> set its. milli_diff e (it_now it) \<le> 0))
        \<or> (ret < 0 \<and> (\<exists>it \<in> set its. it_poll it = ret)))"
proof (induction its arbitrary: s)
  case Nil
  then show ?case by simp
next
  case (Cons it its)
  obtain w ios u where s: "s = (w, ios, u)" by (cases s) auto
  obtain ios1 polled u1 w1 where p: "prepare_loop (it_connect it) 0 ios w = (ios1, polled, u1, w1)"
    by (cases "prepare_loop (it_connect it) 0 ios w") auto
  have l1: "length ios1 = length ios"
    using prepare_loop_length [of "it_connect it" 0 ios w] p by simp
  show ?case
  proof (cases "polled = []")
    case True
    then have "\<forall>io \<in> set ios1. inactive io"
      using prepare_loop_none_polled p by blast
    then show ?thesis using Cons.prems s p True l1 by auto
  next
    case np: False
    show ?thesis
    proof (cases "milli_diff e (it_now it) \<le> 0")
      case True
      then show ?thesis using Cons.prems s p np l1 by auto
    next
      case nd: False
      show ?thesis
      proof (cases "it_poll it < 0")
        case True
        then show ?thesis using Cons.prems s p np nd l1 by auto
      next
        case pk: False
        show ?thesis
        proof (cases "events_loop cfg it 0 polled (w1, ios1, u \<or> u1)")
          case (Inl f)
          then show ?thesis using Cons.prems s p np nd pk by simp
        next
          case (Inr s')
          obtain w2 ios2 u2 where s': "s' = (w2, ios2, u2)" by (cases s') auto
          have l2: "length ios2 = length ios1"
            using events_loop_length Inr s' by blast
          have "main_loop cfg e its s' = Some (Inr (ret, w', ios', u'))"
            using Cons.prems s p np nd pk Inr by simp
          from Cons.IH [OF this] show ?thesis using s s' l1 l2 by auto
        qed
      qed
    qed
  qed
qed

lemma main_loop_returns:
  "\<exists>it \<in> set its. milli_diff e (it_now it) \<le> 0 \<or> it_poll it < 0 \<Longrightarrow>
     main_loop cfg e its s \<noteq> None"
proof (induction its arbitrary: s)
  case Nil
  then show ?case by simp
next
  case (Cons it its)
  obtain w ios u where s: "s = (w, ios, u)" by (cases s) auto
  obtain ios1 polled u1 w1 where p: "prepare_loop (it_connect it) 0 ios w = (ios1, polled, u1, w1)"
    by (cases "prepare_loop (it_connect it) 0 ios w") auto
  show ?case
  proof (cases "polled = [] \<or> milli_diff e (it_now it) \<le> 0 \<or> it_poll it < 0")
    case True
    then show ?thesis using s p by (auto simp add: Let_def)
  next
    case False
    then have tl: "\<exists>it \<in> set its. milli_diff e (it_now it) \<le> 0 \<or> it_poll it < 0"
      using Cons.prems by auto
    show ?thesis
    proof (cases "events_loop cfg it 0 polled (w1, ios1, u \<or> u1)")
      case (Inl f)
      then show ?thesis using s p False by (simp add: Let_def)
    next
      case (Inr s')
      then show ?thesis using s p False Cons.IH [OF tl, of s'] by (simp add: Let_def)
    qed
  qed
qed

lemma main_loop_inactive:
  "\<forall>io \<in> set ios. inactive io \<Longrightarrow>
     main_loop cfg e (it # its) (w, ios, u) = Some (Inr (0, w, ios, u))"
  by (simp add: prepare_loop_inactive)

lemma close_all_log:
  "close_all ios w = (ios', w') \<Longrightarrow>
     closed_fds w' = closed_fds w @ filter (\<lambda>fd. fd \<noteq> - 1) (map io_asok ios)
     \<and> opened_fds w' = opened_fds w"
proof (induction ios arbitrary: w ios')
  case Nil
  then show ?case by simp
next
  case (Cons io ios)
  obtain ios1 w2 where t0: "close_all ios (snd (cconn_close io w)) = (ios1, w2)"
    by (cases "close_all ios (snd (cconn_close io w))") auto
  then have "w2 = w'" using Cons.prems by (simp add: Let_def case_prod_unfold)
  then have t: "close_all ios (snd (cconn_close io w)) = (ios1, w')" using t0 by simp
  from Cons.IH [OF t] show ?case by (simp add: cconn_close_def)
qed

lemma close_all_closed:
  "close_all ios w = (ios', w') \<Longrightarrow>
     length ios' = length ios
     \<and> (\<forall>io \<in> set ios'.
           io_asok io = - 1 \<and> io_state io = CSTATE_UNCONNECTED \<and> io_json io = None)
     \<and> (\<forall>io \<in> set ios. inactive io) = (\<forall>io \<in> set ios'. inactive io)"
proof (induction ios arbitrary: w ios')
  case Nil
  then show ?case by simp
next
  case (Cons io ios)
  obtain ios1 w2 where t0: "close_all ios (snd (cconn_close io w)) = (ios1, w2)"
    by (cases "close_all ios (snd (cconn_close io w))") auto
  then have "w2 = w'" and h: "ios' = fst (cconn_close io w) # ios1"
    using Cons.prems by (simp_all add: Let_def case_prod_unfold)
  then have t: "close_all ios (snd (cconn_close io w)) = (ios1, w')" using t0 by simp
  have c: "inactive (fst (cconn_close io w)) = inactive io"
    by (simp add: inactive_def cconn_close_def)
  from Cons.IH [OF t] h c show ?case by (auto simp add: cconn_close_def)
qed


text \<open>
  What holds of the exits of the loop.  It returns (or stops at a fault of a handler) as
  soon as an iteration finds the deadline reached or \<^verbatim>\<open>poll\<close> failing, if it has not
  returned before, and an iteration that finds every connection inactive returns 0 at
  once.  A return value is 0 with no connection left active, or \<^verbatim>\<open>-ETIMEDOUT\<close> with the
  deadline reached in some iteration, or the negative code of a failed \<^verbatim>\<open>poll\<close>.  Every
  connection has gone through \<^verbatim>\<open>cconn_close\<close> before the return: after the label
  \<^verbatim>\<open>done\<close> the descriptors passed to \<^verbatim>\<open>close\<close> are exactly those stored in the
  connections and different from \<open>-1\<close>, and no descriptor is opened.
\<close>

lemma cconn_main_loop_exits:
  "((\<exists>it \<in> set its.
        milli_diff (start\<lparr>tv_sec := tv_sec start + CEPH_TIMEOUT_INTERVAL\<rparr>) (it_now it) \<le> 0
        \<or> it_poll it < 0)
      \<longrightarrow> cconn_main_loop cfg request_type start its w g_daemons \<noteq> None)
   \<and> ((\<forall>io \<in> set ios. inactive io)
      \<longrightarrow> main_loop cfg e (it # its) (w, ios, u) = Some (Inr (0, w, ios, u)))
   \<and> (\<forall>ret w' ds' ios'.
        cconn_main_loop cfg request_type start its w g_daemons = Some (Inr (ret, w', ds', ios'))
        \<longrightarrow> ((ret = 0 \<and> (\<forall>io \<in> set ios'. inactive io))
              \<or> (ret = - errno_of ETIMEDOUT
                  \<and> (\<exists>it \<in> set its.
                        milli_diff (start\<lparr>tv_sec := tv_sec start + CEPH_TIMEOUT_INTERVAL\<rparr>)
                          (it_now it) \<le> 0))
              \<or> (ret < 0 \<and> (\<exists>it \<in> set its. it_poll it = ret)))
            \<and> length ios' = length g_daemons
            \<and> (\<forall>io \<in> set ios'.
                  io_asok io = - 1 \<and> io_state io = CSTATE_UNCONNECTED \<and> io_json io = None)
            \<and> (\<exists>w1 ios1 u1.
                  main_loop cfg (start\<lparr>tv_sec := tv_sec start + CEPH_TIMEOUT_INTERVAL\<rparr>) its
                    (w, map (cconn_init cfg request_type) g_daemons, False)
                    = Some (Inr (ret, w1, ios1, u1))
                  \<and> closed_fds w'
                      = closed_fds w1 @ filter (\<lambda>fd. fd \<noteq> - 1) (map io_asok ios1)
                  \<and> opened_fds w' = opened_fds w1))"
proof (intro conjI allI impI)
  let ?e = "start\<lparr>tv_sec := tv_sec start + CEPH_TIMEOUT_INTERVAL\<rparr>"
  let ?s = "(w, map (cconn_init cfg request_type) g_daemons, False)"
  {
    assume "\<exists>it \<in> set its. milli_diff ?e (it_now it) \<le> 0 \<or> it_poll it < 0"
    then have "main_loop cfg ?e its ?s \<noteq> None" by (rule main_loop_returns)
    then show "cconn_main_loop cfg request_type start its w g_daemons \<noteq> None"
      by (auto simp add: cconn_main_loop_def Let_def case_prod_unfold
          split: option.splits sum.splits)
  }
  {
    assume "\<forall>io \<in> set ios. inactive io"
    then show "main_loop cfg e (it # its) (w, ios, u) = Some (Inr (0, w, ios, u))"
      by (rule main_loop_inactive)
  }
  {
    fix ret w' ds' ios'
    assume res: "cconn_main_loop cfg request_type start its w g_daemons = Some (Inr (ret, w', ds', ios'))"
    then obtain w1 ios1 u1 where m: "main_loop cfg ?e its ?s = Some (Inr (ret, w1, ios1, u1))"
      and c: "close_all ios1 w1 = (ios', w')"
      by (auto simp add: cconn_main_loop_def Let_def case_prod_unfold
          split: option.splits sum.splits)
    have r: "length ios1 = length g_daemons
       \<and> ((ret = 0 \<and> (\<forall>io \<in> set ios1. inactive io))
        \<or> (ret = - errno_of ETIMEDOUT \<and> (\<exists>it \<in> set its. milli_diff ?e (it_now it) \<le> 0))
        \<or> (ret < 0 \<and> (\<exists>it \<in> set its. it_poll it = ret)))"
      using main_loop_result [OF m] by simp
    note cl = close_all_closed [OF c] close_all_log [OF c]
    show "(ret = 0 \<and> (\<forall>io \<in> set ios'. inactive io))
              \<or> (ret = - errno_of ETIMEDOUT
                  \<and> (\<exists>it \<in> set its. milli_diff ?e (it_now it) \<le> 0))
              \<or> (ret < 0 \<and> (\<exists>it \<in> set its. it_poll it = ret))"
      using r cl(1) by blast
    show "length ios' = length g_daemons" using r cl(1) by simp
    show "\<forall>io \<in> set ios'.
            io_asok io = - 1 \<and> io_state io = CSTATE_UNCONNECTED \<and> io_json io = None"
      using cl(1) by blast
    show "\<exists>w1 ios1 u1.
            main_loop cfg ?e its ?s = Some (Inr (ret, w1, ios1, u1))
            \<and> closed_fds w' = closed_fds w1 @ filter (\<lambda>fd. fd \<noteq> - 1) (map io_asok ios1)
            \<and> opened_fds w' = opened_fds w1"
      using m cl(2) by blast
  }
qed

lemma milli_diff_examples:
  "milli_diff \<lparr>tv_sec = 100 + CEPH_TIMEOUT_INTERVAL, tv_usec = 0\<rparr> \<lparr>tv_sec = 101, tv_usec = 0\<rparr> = 0"
  "milli_diff \<lparr>tv_sec = 100 + CEPH_TIMEOUT_INTERVAL, tv_usec = 0\<rparr> \<lparr>tv_sec = 100, tv_usec = 0\<rparr> = 1000"
  "milli_diff \<lparr>tv_sec = 3000000, tv_usec = 0\<rparr> \<lparr>tv_sec = 0, tv_usec = 0\<rparr> = - 1294967296"
  by (simp_all add: milli_diff_def c_div_def CEPH_TIMEOUT_INTERVAL_def INT_MAX_def INT_MIN_def)

lemma cconn_connect_refused:
  assumes "io_state io = CSTATE_UNCONNECTED" and "0 \<le> socket_ret res"
    and "connect_ret res < 0 \<or> fcntl_ret res \<noteq> 0"
  shows "cconn_connect res io w
     = (if connect_ret res < 0 then connect_ret res else fcntl_ret res, io,
        w\<lparr>opened_fds := opened_fds w @ [socket_ret res]\<rparr>)"
  using assms by (auto simp add: cconn_connect_def Let_def)

text \<open>
  Claim C8 against the code.  When \<^verbatim>\<open>connect\<close> (or \<^verbatim>\<open>fcntl\<close>) fails, \<^verbatim>\<open>cconn_connect\<close>
  returns without closing the descriptor that \<^verbatim>\<open>socket\<close> gave and without storing it in
  the connection, whose descriptor is still the 0 left by \<^verbatim>\<open>memset\<close>.  So the socket of a
  daemon that is down is closed neither by the loop nor after the label \<^verbatim>\<open>done\<close>, and
  the descriptor 0, which the cycle has not opened, is passed to \<^verbatim>\<open>close\<close> in its place.
  Three cycles, one for each way the loop ends.  With one daemon that is down, the cycle
  returns 0 in its first iteration, having opened the descriptor 5 and closed the
  descriptor 0.  With a first daemon connected on the descriptor 5 and a second daemon
  down, whose socket is the descriptor 6, the cycle ends on the deadline with
  \<^verbatim>\<open>-ETIMEDOUT\<close> (\<open>-110\<close>), or on a failed \<^verbatim>\<open>poll\<close> with its code (\<open>-12\<close>); both times
  the descriptors 0 and 5 have been closed and the descriptor 6 is left open.
\<close>

theorem C8_unclosed_socket:
  "cconn_main_loop cfg0 ASOK_REQ_VERSION \<lparr>tv_sec = 100, tv_usec = 0\<rparr> [it_refused] world0 [osd0]
     = Some (Inr (0, world0\<lparr>opened_fds := [5], closed_fds := [0]\<rparr>, [osd0],
                  [(cconn_init cfg0 ASOK_REQ_VERSION osd0)
                     \<lparr>io_request_type := ASOK_REQ_NONE, io_asok := - 1\<rparr>]))
   \<and> cconn_main_loop cfg0 ASOK_REQ_VERSION \<lparr>tv_sec = 100, tv_usec = 0\<rparr> [it_late_refused] world0
        [osd0, osd1]
     = Some (Inr (- 110, world0\<lparr>opened_fds := [5, 6], closed_fds := [0, 5]\<rparr>, [osd0, osd1],
                  [(cconn_init cfg0 ASOK_REQ_VERSION osd0)\<lparr>io_asok := - 1\<rparr>,
                   (cconn_init cfg0 ASOK_REQ_VERSION osd1)
                     \<lparr>io_request_type := ASOK_REQ_NONE, io_asok := - 1\<rparr>]))
   \<and> cconn_main_loop cfg0 ASOK_REQ_VERSION \<lparr>tv_sec = 100, tv_usec = 0\<rparr> [it_poll_refused] world0
        [osd0, osd1]
     = Some (Inr (- 12, world0\<lparr>opened_fds := [5, 6], closed_fds := [0, 5]\<rparr>, [osd0, osd1],
                  [(cconn_init cfg0 ASOK_REQ_VERSION osd0)\<lparr>io_asok := - 1\<rparr>,
                   (cconn_init cfg0 ASOK_REQ_VERSION osd1)
                     \<lparr>io_request_type := ASOK_REQ_NONE, io_asok := - 1\<rparr>]))
   \<and> set (opened_fds (world0\<lparr>opened_fds := [5], closed_fds := [0]\<rparr>))
       - set (closed_fds (world0\<lparr>opened_fds := [5], closed_fds := [0]\<rparr>)) = {5}
   \<and> set (opened_fds (world0\<lparr>opened_fds := [5, 6], closed_fds := [0, 5]\<rparr>))
       - set (closed_fds (world0\<lparr>opened_fds := [5, 6], closed_fds := [0, 5]\<rparr>)) = {6}"
proof -
  have c1: "it_connect it_refused i = \<lparr>socket_ret = 5, connect_ret = - 111, fcntl_ret = 0\<rparr>" for i
    by (simp add: it_refused_def)
  have c2: "it_connect it_late_refused 0 = \<lparr>socket_ret = 5, connect_ret = 0, fcntl_ret = 0\<rparr>"
    "it_connect it_late_refused (Suc 0) = \<lparr>socket_ret = 6, connect_ret = - 111, fcntl_ret = 0\<rparr>"
    "it_now it_late_refused = \<lparr>tv_sec = 101, tv_usec = 0\<rparr>"
    by (simp_all add: it_late_refused_def)
  have c3: "it_connect it_poll_refused 0 = \<lparr>socket_ret = 5, connect_ret = 0, fcntl_ret = 0\<rparr>"
    "it_connect it_poll_refused (Suc 0) = \<lparr>socket_ret = 6, connect_ret = - 111, fcntl_ret = 0\<rparr>"
    "it_now it_poll_refused = \<lparr>tv_sec = 100, tv_usec = 0\<rparr>"
    "it_poll it_poll_refused = - 12"
    by (simp_all add: it_poll_refused_def it_late_refused_def)
  have r1: "cconn_main_loop cfg0 ASOK_REQ_VERSION \<lparr>tv_sec = 100, tv_usec = 0\<rparr> [it_refused] world0 [osd0]
     = Some (Inr (0, world0\<lparr>opened_fds := [5], closed_fds := [0]\<rparr>, [osd0],
                  [(cconn_init cfg0 ASOK_REQ_VERSION osd0)
                     \<lparr>io_request_type := ASOK_REQ_NONE, io_asok := - 1\<rparr>]))"
    unfolding cconn_main_loop_def
    by (simp add: c1 Let_def cconn_prepare_def cconn_connect_def cconn_init_def cconn_close_def
        ASOK_REQ_VERSION_def ASOK_REQ_NONE_def ASOK_REQ_DATA_def world0_def)
  have r2: "cconn_main_loop cfg0 ASOK_REQ_VERSION \<lparr>tv_sec = 100, tv_usec = 0\<rparr> [it_late_refused] world0
        [osd0, osd1]
     = Some (Inr (- 110, world0\<lparr>opened_fds := [5, 6], closed_fds := [0, 5]\<rparr>, [osd0, osd1],
                  [(cconn_init cfg0 ASOK_REQ_VERSION osd0)\<lparr>io_asok := - 1\<rparr>,
                   (cconn_init cfg0 ASOK_REQ_VERSION osd1)
                     \<lparr>io_request_type := ASOK_REQ_NONE, io_asok := - 1\<rparr>]))"
    unfolding cconn_main_loop_def
    by (simp add: c2 milli_diff_examples Let_def cconn_prepare_def cconn_connect_def cconn_init_def
        cconn_close_def ASOK_REQ_VERSION_def ASOK_REQ_NONE_def ASOK_REQ_DATA_def world0_def)
  have r3: "cconn_main_loop cfg0 ASOK_REQ_VERSION \<lparr>tv_sec = 100, tv_usec = 0\<rparr> [it_poll_refused] world0
        [osd0, osd1]
     = Some (Inr (- 12, world0\<lparr>opened_fds := [5, 6], closed_fds := [0, 5]\<rparr>, [osd0, osd1],
                  [(cconn_init cfg0 ASOK_REQ_VERSION osd0)\<lparr>io_asok := - 1\<rparr>,
                   (cconn_init cfg0 ASOK_REQ_VERSION osd1)
                     \<lparr>io_request_type := ASOK_REQ_NONE, io_asok := - 1\<rparr>]))"
    unfolding cconn_main_loop_def
    by (simp add: c3 milli_diff_examples Let_def cconn_prepare_def cconn_connect_def cconn_init_def
        cconn_close_def ASOK_REQ_VERSION_def ASOK_REQ_NONE_def ASOK_REQ_DATA_def world0_def)
  show ?thesis unfolding r1 r2 r3 by simp
qed

end
